theory Spec2Isabelle
  imports Complex_Main "HOL-Library.AList"
begin

section \<open>JavaScript values\<close>

text \<open>
  The two servers of the repository, \<^verbatim>\<open>src/server.js\<close> and
  \<^verbatim>\<open>src/unnamed/part_000\<close>, are Express applications. Their handlers work on
  JSON values: the request body that \<^verbatim>\<open>express.json()\<close> parsed and the reply
  of the provider that \<^verbatim>\<open>JSON.parse\<close> parsed.

  A Number is NaN, an infinity or a finite value. The handlers only compare Numbers
  and take minima and maxima, which is exact on doubles, so a finite double is
  represented by the real it denotes; both zeros are \<open>Fin 0\<close>.
\<close>

datatype jsnum = NaN | PosInf | NegInf | Fin real

text \<open>
  An array carries its elements and the named properties that were assigned to it
  (none after \<^verbatim>\<open>JSON.parse\<close>); an object carries its own properties in
  insertion order. A string is the list of its code units, which is all the
  handlers need of a text: whether it is empty, how long it is, its first 5000
  units.
\<close>

datatype jsval =
    JUndefined
  | JNull
  | JBool bool
  | JNum jsnum
  | JStr string
  | JArr "jsval list" "(string \<times> jsval) list"
  | JObj "(string \<times> jsval) list"

text \<open>
  What is thrown inside the \<^verbatim>\<open>try\<close> block: the engine's TypeError, the
  SyntaxError of \<^verbatim>\<open>JSON.parse\<close>, an error of the provider's library. Each is an
  Error object, so reading \<^verbatim>\<open>error.message\<close> in the \<^verbatim>\<open>catch\<close> block does
  not throw in turn.
\<close>

datatype error = TypeError | SyntaxError | ProviderError

definition try_bind :: "error + 'a \<Rightarrow> ('a \<Rightarrow> error + 'b) \<Rightarrow> error + 'b" where
  "try_bind m f = (case m of Inl e \<Rightarrow> Inl e | Inr x \<Rightarrow> f x)"

subsection \<open>Numbers\<close>

text \<open>\<^verbatim>\<open>Math.max\<close> and \<^verbatim>\<open>Math.min\<close> of two Numbers: NaN if either is NaN.\<close>

fun num_max :: "jsnum \<Rightarrow> jsnum \<Rightarrow> jsnum" where
  "num_max NaN b = NaN"
| "num_max a NaN = NaN"
| "num_max PosInf b = PosInf"
| "num_max a PosInf = PosInf"
| "num_max NegInf b = b"
| "num_max a NegInf = a"
| "num_max (Fin x) (Fin y) = Fin (max x y)"

fun num_min :: "jsnum \<Rightarrow> jsnum \<Rightarrow> jsnum" where
  "num_min NaN b = NaN"
| "num_min a NaN = NaN"
| "num_min NegInf b = NegInf"
| "num_min a NegInf = NegInf"
| "num_min PosInf b = b"
| "num_min a PosInf = a"
| "num_min (Fin x) (Fin y) = Fin (min x y)"

text \<open>The comparison \<^verbatim>\<open>a < b\<close> of two Numbers: false if either is NaN.\<close>

fun num_less :: "jsnum \<Rightarrow> jsnum \<Rightarrow> bool" where
  "num_less NaN b = False"
| "num_less a NaN = False"
| "num_less PosInf b = False"
| "num_less a NegInf = False"
| "num_less NegInf b = True"
| "num_less a PosInf = True"
| "num_less (Fin x) (Fin y) = (x < y)"

text \<open>A score that is a Number of the closed interval from 0 to 10.\<close>

fun in_0_10 :: "jsval \<Rightarrow> bool" where
  "in_0_10 (JNum (Fin r)) = (0 \<le> r \<and> r \<le> 10)"
| "in_0_10 _ = False"

subsection \<open>Truthiness, \<^verbatim>\<open>typeof\<close> and \<^verbatim>\<open>||\<close>\<close>

fun truthy :: "jsval \<Rightarrow> bool" where
  "truthy JUndefined = False"
| "truthy JNull = False"
| "truthy (JBool b) = b"
| "truthy (JNum n) = (n \<noteq> NaN \<and> n \<noteq> Fin 0)"
| "truthy (JStr s) = (s \<noteq> [])"
| "truthy (JArr xs ps) = True"
| "truthy (JObj fs) = True"

fun typeof :: "jsval \<Rightarrow> string" where
  "typeof JUndefined = ''undefined''"
| "typeof JNull = ''object''"
| "typeof (JBool b) = ''boolean''"
| "typeof (JNum n) = ''number''"
| "typeof (JStr s) = ''string''"
| "typeof (JArr xs ps) = ''object''"
| "typeof (JObj fs) = ''object''"

definition js_or :: "jsval \<Rightarrow> jsval \<Rightarrow> jsval" where
  "js_or a b = (if truthy a then a else b)"

subsection \<open>Reading and writing properties\<close>

definition own :: "(string \<times> jsval) list \<Rightarrow> string \<Rightarrow> jsval" where
  "own fs k = (case map_of fs k of Some v \<Rightarrow> v | None \<Rightarrow> JUndefined)"

text \<open>
  \<^verbatim>\<open>v.k\<close> for a name \<open>k\<close> that is neither inherited from a prototype nor an
  index of an array or a string. Such are the names the handlers read:
  \<^verbatim>\<open>text\<close>, \<^verbatim>\<open>score\<close>, \<^verbatim>\<open>risk\<close>, \<^verbatim>\<open>sources\<close>,
  \<^verbatim>\<open>claimsChecked\<close>, and \<^verbatim>\<open>length\<close>, which a string and an array have of
  their own. Reading a property of \<^verbatim>\<open>undefined\<close> or \<^verbatim>\<open>null\<close> throws.
  (The methods \<^verbatim>\<open>substring\<close> and \<^verbatim>\<open>join\<close>, which are inherited, have
  functions of their own below.)
\<close>

fun get_prop :: "jsval \<Rightarrow> string \<Rightarrow> error + jsval" where
  "get_prop JUndefined k = Inl TypeError"
| "get_prop JNull k = Inl TypeError"
| "get_prop (JBool b) k = Inr JUndefined"
| "get_prop (JNum n) k = Inr JUndefined"
| "get_prop (JStr s) k =
     Inr (if k = ''length'' then JNum (Fin (real (length s))) else JUndefined)"
| "get_prop (JArr xs ps) k =
     Inr (if k = ''length'' then JNum (Fin (real (length xs))) else own ps k)"
| "get_prop (JObj fs) k = Inr (own fs k)"

text \<open>
  \<^verbatim>\<open>v.k = x\<close> in strict mode (both files are ES modules): an object or an array
  takes the property, keeping the place of a key it already has; anything else
  throws.
\<close>

fun set_prop :: "jsval \<Rightarrow> string \<Rightarrow> jsval \<Rightarrow> error + jsval" where
  "set_prop (JObj fs) k x = Inr (JObj (AList.update k x fs))"
| "set_prop (JArr xs ps) k x = Inr (JArr xs (AList.update k x ps))"
| "set_prop v k x = Inl TypeError"

section \<open>The process and its surroundings\<close>

text \<open>
  What \<^verbatim>\<open>await model.generateContent(...)\<close> followed by
  \<^verbatim>\<open>JSON.parse(response.text())\<close> comes to: the call (or reading its text)
  throws, the text is not JSON, or the text parses to a value.
\<close>

datatype upstream = CallThrows | ReplyNotJSON | ReplyJSON jsval

text \<open>
  The surroundings of a request: the environment variable, read when the request is
  handled, and the provider (what it answers to the user part of a request).
\<close>

record world =
  GEMINI_API_KEY :: "string option"
  generateContent :: "string \<Rightarrow> upstream"

text \<open>
  The two conversions of the JavaScript engine between strings and Numbers. They
  round to doubles and are left abstract: every function below takes them as a
  parameter, and every theorem holds whatever they are.
\<close>

record engine =
  StringToNumber :: "string \<Rightarrow> jsnum"
  NumberToString :: "jsnum \<Rightarrow> string"

text \<open>\<^verbatim>\<open>!process.env.GEMINI_API_KEY\<close>: unset or empty.\<close>

definition key_missing :: "world \<Rightarrow> bool" where
  "key_missing w = (case GEMINI_API_KEY w of None \<Rightarrow> True | Some k \<Rightarrow> k = [])"

subsection \<open>Conversions\<close>

definition has_own :: "(string \<times> jsval) list \<Rightarrow> string \<Rightarrow> bool" where
  "has_own fs k = (map_of fs k \<noteq> None)"

text \<open>Joining the texts of the elements; the first element that throws wins.\<close>

fun join_texts :: "string \<Rightarrow> (error + string) list \<Rightarrow> error + string" where
  "join_texts sep [] = Inr []"
| "join_texts sep [t] = t"
| "join_texts sep (t # u # us) =
     try_bind t (\<lambda>a. try_bind (join_texts sep (u # us)) (\<lambda>b. Inr (a @ sep @ b)))"

text \<open>
  \<^verbatim>\<open>ToString\<close>. A value made by \<^verbatim>\<open>JSON.parse\<close> holds no function, so an own
  property \<^verbatim>\<open>toString\<close> hides the inherited method with something that cannot be
  called, and the inherited \<^verbatim>\<open>valueOf\<close> returns the object itself: the conversion
  throws. An array is joined with commas, \<^verbatim>\<open>undefined\<close> and \<^verbatim>\<open>null\<close>
  elements giving the empty string.
\<close>

fun ToString :: "engine \<Rightarrow> jsval \<Rightarrow> error + string" where
  "ToString js JUndefined = Inr ''undefined''"
| "ToString js JNull = Inr ''null''"
| "ToString js (JBool b) = Inr (if b then ''true'' else ''false'')"
| "ToString js (JNum n) = Inr (NumberToString js n)"
| "ToString js (JStr s) = Inr s"
| "ToString js (JObj fs) =
     (if has_own fs ''toString'' then Inl TypeError else Inr ''[object Object]'')"
| "ToString js (JArr xs ps) =
     (if has_own ps ''toString'' then Inl TypeError
      else if has_own ps ''join'' then Inr ''[object Array]''
      else join_texts '',''
        (map (\<lambda>x. if x = JUndefined \<or> x = JNull then Inr [] else ToString js x) xs))"

text \<open>
  \<^verbatim>\<open>ToNumber\<close>. An object is first converted as above; the text
  \<^verbatim>\<open>[object Object]\<close> is no numeric literal.
\<close>

fun ToNumber :: "engine \<Rightarrow> jsval \<Rightarrow> error + jsnum" where
  "ToNumber js JUndefined = Inr NaN"
| "ToNumber js JNull = Inr (Fin 0)"
| "ToNumber js (JBool b) = Inr (Fin (if b then 1 else 0))"
| "ToNumber js (JNum n) = Inr n"
| "ToNumber js (JStr s) = Inr (StringToNumber js s)"
| "ToNumber js (JObj fs) = try_bind (ToString js (JObj fs)) (\<lambda>s. Inr NaN)"
| "ToNumber js (JArr xs ps) =
     try_bind (ToString js (JArr xs ps)) (\<lambda>s. Inr (StringToNumber js s))"

text \<open>
  \<^verbatim>\<open>v < c\<close> and \<^verbatim>\<open>v > c\<close> against a Number: \<open>v\<close> is converted to a
  Number, which may throw.
\<close>

definition js_less :: "engine \<Rightarrow> jsval \<Rightarrow> jsnum \<Rightarrow> error + bool" where
  "js_less js v c = try_bind (ToNumber js v) (\<lambda>n. Inr (num_less n c))"

definition js_greater :: "engine \<Rightarrow> jsval \<Rightarrow> jsnum \<Rightarrow> error + bool" where
  "js_greater js v c = try_bind (ToNumber js v) (\<lambda>n. Inr (num_less c n))"

text \<open>
  \<^verbatim>\<open>text.substring(0, n)\<close>: only a string has the method; on any other JSON value
  the call throws.
\<close>

fun substring :: "jsval \<Rightarrow> nat \<Rightarrow> error + string" where
  "substring (JStr s) n = Inr (take n s)"
| "substring v n = Inl TypeError"

text \<open>
  \<^verbatim>\<open>sources.join(sep)\<close>: only an array has the method, unless a property of that
  name hides it.
\<close>

fun call_join :: "engine \<Rightarrow> jsval \<Rightarrow> string \<Rightarrow> error + string" where
  "call_join js (JArr xs ps) sep =
     (if has_own ps ''join'' then Inl TypeError
      else join_texts sep
        (map (\<lambda>x. if x = JUndefined \<or> x = JNull then Inr [] else ToString js x) xs))"
| "call_join js v sep = Inl TypeError"

section \<open>Responses\<close>

text \<open>
  An answer: its status and the value handed to \<^verbatim>\<open>res.json\<close>. On the wire
  \<^verbatim>\<open>JSON.stringify\<close> writes a Number that is not finite as \<^verbatim>\<open>null\<close> and
  leaves out the named properties of an array.
\<close>

record response =
  status :: nat
  json :: jsval

text \<open>\<^verbatim>\<open>res.json(v)\<close> answers 200; \<^verbatim>\<open>res.status(c).json(v)\<close> answers \<open>c\<close>.\<close>

definition res_json :: "jsval \<Rightarrow> response" where
  "res_json v = \<lparr>status = 200, json = v\<rparr>"

definition res_status_json :: "nat \<Rightarrow> jsval \<Rightarrow> response" where
  "res_status_json c v = \<lparr>status = c, json = v\<rparr>"

text \<open>The awaited call and \<^verbatim>\<open>JSON.parse\<close> of its text.\<close>

fun received :: "upstream \<Rightarrow> error + jsval" where
  "received CallThrows = Inl ProviderError"
| "received ReplyNotJSON = Inl SyntaxError"
| "received (ReplyJSON v) = Inr v"

text \<open>
  The three assignments under the comment \<^verbatim>\<open>// Validate\<close>
  (\<^verbatim>\<open>// Validation and defaults\<close> in \<^verbatim>\<open>part_000\<close>, on
  \<^verbatim>\<open>jsonResponse\<close>), the same in both files:
  \<^verbatim>\<open>analysis.score = Math.min(10, Math.max(0, analysis.score || 5));\<close>
  \<^verbatim>\<open>analysis.sources = analysis.sources || [];\<close>
  \<^verbatim>\<open>analysis.claimsChecked = analysis.claimsChecked || 0;\<close>
\<close>

definition validate :: "engine \<Rightarrow> jsval \<Rightarrow> error + jsval" where
  "validate js analysis =
     try_bind (get_prop analysis ''score'') (\<lambda>score.
     try_bind (ToNumber js (js_or score (JNum (Fin 5)))) (\<lambda>n.
     try_bind (set_prop analysis ''score''
                 (JNum (num_min (Fin 10) (num_max (Fin 0) n)))) (\<lambda>a1.
     try_bind (get_prop a1 ''sources'') (\<lambda>sources.
     try_bind (set_prop a1 ''sources'' (js_or sources (JArr [] []))) (\<lambda>a2.
     try_bind (get_prop a2 ''claimsChecked'') (\<lambda>claimsChecked.
     set_prop a2 ''claimsChecked'' (js_or claimsChecked (JNum (Fin 0)))))))))"

text \<open>
  The own properties after the three assignments, \<open>n\<close> being the Number that
  \<^verbatim>\<open>Math.max\<close> made of \<^verbatim>\<open>analysis.score || 5\<close>.
\<close>

definition written :: "(string \<times> jsval) list \<Rightarrow> jsnum \<Rightarrow> (string \<times> jsval) list" where
  "written fs n =
     AList.update ''claimsChecked'' (js_or (own fs ''claimsChecked'') (JNum (Fin 0)))
       (AList.update ''sources'' (js_or (own fs ''sources'') (JArr [] []))
         (AList.update ''score'' (JNum (num_min (Fin 10) (num_max (Fin 0) n))) fs))"

section \<open>\<^verbatim>\<open>src/server.js\<close>\<close>

definition short_result :: jsval where
  "short_result = JObj
     [(''score'', JNum (Fin 5)),
      (''risk'', JStr ''Medium Risk''),
      (''summary'', JStr ''Post too short for meaningful analysis.''),
      (''sources'', JArr [] []),
      (''claimsChecked'', JNum (Fin 0))]"

definition config_error_result :: jsval where
  "config_error_result = JObj
     [(''error'', JStr ''Server configuration error''),
      (''score'', JNum (Fin 5)),
      (''risk'', JStr ''Medium Risk''),
      (''summary'', JStr ''Server not properly configured.''),
      (''sources'', JArr [] []),
      (''claimsChecked'', JNum (Fin 0))]"

definition failure_result :: jsval where
  "failure_result = JObj
     [(''error'', JStr ''Analysis failed''),
      (''score'', JNum (Fin 5)),
      (''risk'', JStr ''Medium Risk''),
      (''summary'', JStr ''Could not complete fact-check due to server error.''),
      (''sources'', JArr [] []),
      (''claimsChecked'', JNum (Fin 0))]"

text \<open>\<^verbatim>\<open>!text || typeof text !== 'string' || text.length < 50\<close>\<close>

definition too_short :: "jsval \<Rightarrow> bool" where
  "too_short text =
     (\<not> truthy text \<or> typeof text \<noteq> ''string'' \<or>
      (case text of JStr s \<Rightarrow> length s < 50 | _ \<Rightarrow> False))"

text \<open>
  The user part of the request to the provider. The rest of the request (system
  instruction, search tool, temperature, response schema) is the same literal in
  every call.
\<close>

definition user_part :: "string \<Rightarrow> string" where
  "user_part truncatedText = ''Fact-check this:'' @ [CHR 0x0A, CHR 0x0A] @ truncatedText"

text \<open>
  The text of the line logged before the answer, without its leading mark:
  \<^verbatim>\<open>${analysis.risk} (${analysis.score}/10) - ${analysis.sources.length} sources\<close>.
  Building it converts three values to strings, which may throw.
\<close>

definition log_line :: "engine \<Rightarrow> jsval \<Rightarrow> error + string" where
  "log_line js analysis =
     try_bind (get_prop analysis ''risk'') (\<lambda>risk.
     try_bind (ToString js risk) (\<lambda>t1.
     try_bind (get_prop analysis ''score'') (\<lambda>score.
     try_bind (ToString js score) (\<lambda>t2.
     try_bind (get_prop analysis ''sources'') (\<lambda>sources.
     try_bind (get_prop sources ''length'') (\<lambda>n.
     try_bind (ToString js n) (\<lambda>t3.
       Inr (t1 @ '' ('' @ t2 @ ''/10) - '' @ t3 @ '' sources''))))))))"

text \<open>
  The \<^verbatim>\<open>try\<close> block of \<^verbatim>\<open>app.post('/analyze', ...)\<close>: what it answers or
  throws, and the user parts of the requests it sent to the provider.
\<close>

definition analyze_try :: "engine \<Rightarrow> world \<Rightarrow> jsval \<Rightarrow> (error + response) \<times> string list" where
  "analyze_try js w req_body =
     (case get_prop req_body ''text'' of
        Inl e \<Rightarrow> (Inl e, [])
      | Inr text \<Rightarrow>
          if too_short text then (Inr (res_json short_result), [])
          else if key_missing w then (Inr (res_status_json 500 config_error_result), [])
          else
            (case substring text 5000 of
               Inl e \<Rightarrow> (Inl e, [])
             | Inr truncatedText \<Rightarrow>
                 (try_bind (received (generateContent w (user_part truncatedText)))
                    (\<lambda>parsed.
                  try_bind (validate js parsed) (\<lambda>analysis.
                  try_bind (log_line js analysis) (\<lambda>line.
                    Inr (res_json analysis)))),
                  [user_part truncatedText])))"

text \<open>The handler: the \<^verbatim>\<open>catch\<close> block answers 500 with the failure result.\<close>

definition post_analyze :: "engine \<Rightarrow> world \<Rightarrow> jsval \<Rightarrow> response \<times> string list" where
  "post_analyze js w req_body =
     (case analyze_try js w req_body of
        (Inl e, sent) \<Rightarrow> (res_status_json 500 failure_result, sent)
      | (Inr r, sent) \<Rightarrow> (r, sent))"

text \<open>
  \<^verbatim>\<open>app.get('/health', ...)\<close>; \<open>now\<close> is \<^verbatim>\<open>new Date().toISOString()\<close>, the
  reading of the clock.
\<close>

definition get_health :: "world \<Rightarrow> string \<Rightarrow> response" where
  "get_health w now = res_json (JObj
     [(''status'', JStr ''ok''),
      (''timestamp'', JStr now),
      (''model'', JStr ''gemini-2.0-flash-exp'')])"

section \<open>\<^verbatim>\<open>src/unnamed/part_000\<close>\<close>

definition short_result_p000 :: jsval where
  "short_result_p000 = JObj
     [(''error'', JStr ''Post too short''),
      (''score'', JNum (Fin 5)),
      (''risk'', JStr ''Medium Risk''),
      (''summary'', JStr ''Post too short for meaningful fact-check.''),
      (''sources'', JArr [] []),
      (''claimsChecked'', JNum (Fin 0))]"

definition config_error_result_p000 :: jsval where
  "config_error_result_p000 = JObj
     [(''error'', JStr ''API key not configured''),
      (''score'', JNum (Fin 5)),
      (''risk'', JStr ''Medium Risk''),
      (''summary'', JStr ''Server configuration error. Contact administrator.''),
      (''sources'', JArr [] []),
      (''claimsChecked'', JNum (Fin 0))]"

definition failure_result_p000 :: jsval where
  "failure_result_p000 = JObj
     [(''error'', JStr ''Analysis failed''),
      (''score'', JNum (Fin 5)),
      (''risk'', JStr ''Medium Risk''),
      (''summary'', JStr ''Could not complete fact-check. Server error occurred.''),
      (''sources'', JArr [] []),
      (''claimsChecked'', JNum (Fin 0))]"

text \<open>
  \<^verbatim>\<open>!text || text.length < 50\<close>: without the test of the type, the length of
  whatever \<open>text\<close> is gets compared, which may throw.
\<close>

definition too_short_p000 :: "engine \<Rightarrow> jsval \<Rightarrow> error + bool" where
  "too_short_p000 js text =
     (if truthy text
      then try_bind (get_prop text ''length'') (\<lambda>n. js_less js n (Fin 50))
      else Inr True)"

definition user_part_p000 :: "string \<Rightarrow> string" where
  "user_part_p000 truncatedText =
     ''Fact-check this post:'' @ [CHR 0x0A, CHR 0x0A] @ truncatedText"

text \<open>
  The lines logged before the answer, without their leading marks:
  \<^verbatim>\<open>Analysis: ${jsonResponse.risk} (${jsonResponse.score}/10)\<close> and, if
  \<^verbatim>\<open>jsonResponse.sources.length > 0\<close>,
  \<^verbatim>\<open>Sources: ${jsonResponse.sources.join(', ')}\<close>.
\<close>

definition log_lines_p000 :: "engine \<Rightarrow> jsval \<Rightarrow> error + string list" where
  "log_lines_p000 js jsonResponse =
     try_bind (get_prop jsonResponse ''risk'') (\<lambda>risk.
     try_bind (ToString js risk) (\<lambda>t1.
     try_bind (get_prop jsonResponse ''score'') (\<lambda>score.
     try_bind (ToString js score) (\<lambda>t2.
     try_bind (get_prop jsonResponse ''sources'') (\<lambda>sources.
     try_bind (get_prop sources ''length'') (\<lambda>n.
     try_bind (js_greater js n (Fin 0)) (\<lambda>some.
       if some
       then try_bind (call_join js sources '', '') (\<lambda>t3.
              Inr [''Analysis: '' @ t1 @ '' ('' @ t2 @ ''/10)'', ''Sources: '' @ t3])
       else Inr [''Analysis: '' @ t1 @ '' ('' @ t2 @ ''/10)''])))))))"

definition analyze_try_p000 ::
    "engine \<Rightarrow> world \<Rightarrow> jsval \<Rightarrow> (error + response) \<times> string list" where
  "analyze_try_p000 js w req_body =
     (case get_prop req_body ''text'' of
        Inl e \<Rightarrow> (Inl e, [])
      | Inr text \<Rightarrow>
          (case too_short_p000 js text of
             Inl e \<Rightarrow> (Inl e, [])
           | Inr short \<Rightarrow>
               if short then (Inr (res_json short_result_p000), [])
               else if key_missing w
               then (Inr (res_status_json 500 config_error_result_p000), [])
               else
                 (case substring text 5000 of
                    Inl e \<Rightarrow> (Inl e, [])
                  | Inr truncatedText \<Rightarrow>
                      (try_bind
                         (received (generateContent w (user_part_p000 truncatedText)))
                         (\<lambda>parsed.
                       try_bind (validate js parsed) (\<lambda>jsonResponse.
                       try_bind (log_lines_p000 js jsonResponse) (\<lambda>lines.
                         Inr (res_json jsonResponse)))),
                       [user_part_p000 truncatedText]))))"

definition post_analyze_p000 :: "engine \<Rightarrow> world \<Rightarrow> jsval \<Rightarrow> response \<times> string list" where
  "post_analyze_p000 js w req_body =
     (case analyze_try_p000 js w req_body of
        (Inl e, sent) \<Rightarrow> (res_status_json 500 failure_result_p000, sent)
      | (Inr r, sent) \<Rightarrow> (r, sent))"

definition get_health_p000 :: "world \<Rightarrow> string \<Rightarrow> response" where
  "get_health_p000 w now = res_json (JObj
     [(''status'', JStr ''ok''),
      (''timestamp'', JStr now),
      (''version'', JStr ''2.0''),
      (''aiModel'', JStr ''gemini-2.0-flash-exp'')])"

section \<open>The shape of a result\<close>

text \<open>The error marker of a failure: a property \<^verbatim>\<open>error\<close> holding a string.\<close>

definition own_error :: "jsval \<Rightarrow> bool" where
  "own_error v = (case v of JObj fs \<Rightarrow> typeof (own fs ''error'') = ''string'' | _ \<Rightarrow> False)"

text \<open>
  An AnalysisResult as the specification describes it: a score from 0 to 10, one of
  the three risk categories, a summary, a sequence of source names and a count of
  claims that is a natural number.
\<close>

definition well_formed_result :: "jsval \<Rightarrow> bool" where
  "well_formed_result v =
     (case v of
        JObj fs \<Rightarrow>
          in_0_10 (own fs ''score'')
          \<and> own fs ''risk'' \<in> {JStr ''High Risk'', JStr ''Medium Risk'', JStr ''Trustworthy''}
          \<and> typeof (own fs ''summary'') = ''string''
          \<and> (case own fs ''sources'' of
                JArr xs ps \<Rightarrow> list_all (\<lambda>x. typeof x = ''string'') xs
              | _ \<Rightarrow> False)
          \<and> (case own fs ''claimsChecked'' of
                JNum (Fin r) \<Rightarrow> 0 \<le> r \<and> r \<in> \<int>
              | _ \<Rightarrow> False)
      | _ \<Rightarrow> False)"

section \<open>Auxiliary facts\<close>

subsection \<open>Sequencing and own properties\<close>

lemma try_bind_simps:
  "try_bind (Inl e) f = Inl e"
  "try_bind (Inr x) f = f x"
  by (simp_all add: try_bind_def)

lemma try_bind_Inr_iff:
  "try_bind m f = Inr y \<longleftrightarrow> (\<exists>x. m = Inr x \<and> f x = Inr y)"
  by (cases m) (simp_all add: try_bind_simps)

lemma own_update:
  "own (AList.update k v fs) k' = (if k' = k then v else own fs k')"
  by (simp add: own_def update_conv')

lemma own_written:
  "own (written fs n) k =
    (if k = ''claimsChecked'' then js_or (own fs ''claimsChecked'') (JNum (Fin 0))
     else if k = ''sources'' then js_or (own fs ''sources'') (JArr [] [])
     else if k = ''score'' then JNum (num_min (Fin 10) (num_max (Fin 0) n))
     else own fs k)"
  by (simp add: written_def own_update)

lemma json_res_json [simp]: "json (res_json v) = v"
  by (simp add: res_json_def)

text \<open>The definitions that a run of a handler on given values unfolds.\<close>

lemmas eval_defs =
  post_analyze_def analyze_try_def post_analyze_p000_def analyze_try_p000_def
  too_short_def too_short_p000_def key_missing_def own_def has_own_def validate_def
  try_bind_simps js_or_def log_line_def log_lines_p000_def js_less_def js_greater_def
  res_json_def res_status_json_def user_part_def user_part_p000_def

subsection \<open>The three assignments\<close>

text \<open>On an object and on an array they succeed as soon as the score converts.\<close>

lemma validate_obj:
  "validate js (JObj fs) =
     try_bind (ToNumber js (js_or (own fs ''score'') (JNum (Fin 5)))) (\<lambda>n.
       Inr (JObj (written fs n)))"
  by (simp add: validate_def try_bind_simps own_update written_def)

lemma validate_arr:
  "validate js (JArr xs ps) =
     try_bind (ToNumber js (js_or (own ps ''score'') (JNum (Fin 5)))) (\<lambda>n.
       Inr (JArr xs (written ps n)))"
  by (simp add: validate_def try_bind_simps own_update written_def)

text \<open>On anything else they throw: reading from \<^verbatim>\<open>null\<close>, writing to a primitive.\<close>

lemma validate_other:
  "validate js JUndefined = Inl TypeError"
  "validate js JNull = Inl TypeError"
  "validate js (JBool b) = Inl TypeError"
  "validate js (JNum n) = Inl TypeError"
  "validate js (JStr s) = Inl TypeError"
  by (simp_all add: validate_def try_bind_simps js_or_def)

lemma validate_obj_Inr:
  "validate js (JObj fs) = Inr a \<Longrightarrow>
     \<exists>n. ToNumber js (js_or (own fs ''score'') (JNum (Fin 5))) = Inr n \<and> a = JObj (written fs n)"
  unfolding validate_obj try_bind_Inr_iff by blast

lemma validate_arr_Inr:
  "validate js (JArr xs ps) = Inr a \<Longrightarrow>
     \<exists>n. ToNumber js (js_or (own ps ''score'') (JNum (Fin 5))) = Inr n \<and> a = JArr xs (written ps n)"
  unfolding validate_arr try_bind_Inr_iff by blast

lemma validate_Inr:
  assumes "validate js analysis = Inr a"
  obtains (obj) fs n where "analysis = JObj fs"
      "ToNumber js (js_or (own fs ''score'') (JNum (Fin 5))) = Inr n"
      "a = JObj (written fs n)"
  | (arr) xs ps n where "analysis = JArr xs ps"
      "ToNumber js (js_or (own ps ''score'') (JNum (Fin 5))) = Inr n"
      "a = JArr xs (written ps n)"
proof (cases analysis)
  case (JObj fs)
  with assms validate_obj_Inr [of js fs a] show ?thesis using obj by blast
next
  case (JArr xs ps)
  with assms validate_arr_Inr [of js xs ps a] show ?thesis using arr by blast
qed (use assms in \<open>simp_all add: validate_other\<close>)

text \<open>Every property but the three assigned ones reads as before.\<close>

lemma validate_frame:
  assumes "validate js analysis = Inr a"
    and "k \<noteq> ''score''" "k \<noteq> ''sources''" "k \<noteq> ''claimsChecked''"
  shows "get_prop a k = get_prop analysis k"
  using assms(1)
proof (cases rule: validate_Inr)
  case obj
  then show ?thesis using assms(2-4) by (simp add: own_written)
next
  case arr
  then show ?thesis using assms(2-4) by (simp add: own_written)
qed

subsection \<open>The score\<close>

lemma clamp_below: "num_less n (Fin 0) \<Longrightarrow> num_min (Fin 10) (num_max (Fin 0) n) = Fin 0"
  by (cases n) simp_all

lemma clamp_above: "num_less (Fin 10) n \<Longrightarrow> num_min (Fin 10) (num_max (Fin 0) n) = Fin 10"
  by (cases n) simp_all

lemma clamp_in_range:
  "n \<noteq> NaN \<Longrightarrow> in_0_10 (JNum (num_min (Fin 10) (num_max (Fin 0) n)))"
  by (cases n) simp_all

lemma less_truthy: "num_less n (Fin 0) \<or> num_less (Fin 10) n \<Longrightarrow> truthy (JNum n)"
  by (cases n) auto

lemma validate_number:
  assumes "get_prop analysis ''score'' = Inr (JNum n)" and "truthy (JNum n)"
  shows "\<exists>a. validate js analysis = Inr a
           \<and> get_prop a ''score'' = Inr (JNum (num_min (Fin 10) (num_max (Fin 0) n)))"
proof (cases analysis)
  case (JObj fs)
  with assms show ?thesis
    by (simp add: validate_obj js_or_def try_bind_simps own_written)
next
  case (JArr xs ps)
  with assms show ?thesis
    by (simp add: validate_arr js_or_def try_bind_simps own_written)
qed (use assms in simp_all)

text \<open>
  What does hold of the score: a falsy one becomes 5, and a score that is a Number
  ends in the interval from 0 to 10.
\<close>

lemma falsy_score_is_5:
  assumes "get_prop analysis ''score'' = Inr score" and "\<not> truthy score"
    and "validate js analysis = Inr a"
  shows "get_prop a ''score'' = Inr (JNum (Fin 5))"
  using assms(3)
proof (cases rule: validate_Inr)
  case obj
  with assms(1,2) show ?thesis by (auto simp: own_written js_or_def)
next
  case arr
  with assms(1,2) show ?thesis by (auto simp: own_written js_or_def)
qed

lemma number_score_in_range:
  assumes "get_prop analysis ''score'' = Inr (JNum n)"
  shows "\<exists>a score. validate js analysis = Inr a \<and> get_prop a ''score'' = Inr score
          \<and> in_0_10 score"
proof (cases "truthy (JNum n)")
  case True
  with validate_number [OF assms True, of js] clamp_in_range [of n] show ?thesis
    by auto
next
  case False
  have "\<exists>a. validate js analysis = Inr a"
  proof (cases analysis)
    case (JObj fs)
    with assms False show ?thesis
      by (simp add: validate_obj js_or_def try_bind_simps)
  next
    case (JArr xs ps)
    with assms False show ?thesis
      by (simp add: validate_arr js_or_def try_bind_simps)
  qed (use assms in simp_all)
  then obtain a where a: "validate js analysis = Inr a" ..
  from falsy_score_is_5 [OF assms False a] a show ?thesis
    by auto
qed

subsection \<open>The path of a request with a long enough text\<close>

lemma too_short_string: "too_short (JStr s) = (length s < 50)"
  by (auto simp: too_short_def)

lemma too_short_p000_string:
  "50 \<le> length s \<Longrightarrow> too_short_p000 js (JStr s) = Inr False"
  by (auto simp: too_short_p000_def js_less_def try_bind_simps)

lemma falsy_too_short_p000: "\<not> truthy text \<Longrightarrow> too_short_p000 js text = Inr True"
  by (simp add: too_short_p000_def)

lemma short_string_too_short_p000: "length s < 50 \<Longrightarrow> too_short_p000 js (JStr s) = Inr True"
  by (cases "s = []") (simp_all add: too_short_p000_def js_less_def try_bind_simps)

lemma analyze_try_valid:
  assumes "get_prop req_body ''text'' = Inr (JStr s)" and "50 \<le> length s"
    and "\<not> key_missing w"
  shows "analyze_try js w req_body =
    (try_bind (received (generateContent w (user_part (take 5000 s)))) (\<lambda>parsed.
     try_bind (validate js parsed) (\<lambda>analysis.
     try_bind (log_line js analysis) (\<lambda>line. Inr (res_json analysis)))),
     [user_part (take 5000 s)])"
  using assms by (simp add: analyze_try_def too_short_string)

lemma analyze_try_p000_valid:
  assumes "get_prop req_body ''text'' = Inr (JStr s)" and "50 \<le> length s"
    and "\<not> key_missing w"
  shows "analyze_try_p000 js w req_body =
    (try_bind (received (generateContent w (user_part_p000 (take 5000 s)))) (\<lambda>parsed.
     try_bind (validate js parsed) (\<lambda>jsonResponse.
     try_bind (log_lines_p000 js jsonResponse) (\<lambda>lines. Inr (res_json jsonResponse)))),
     [user_part_p000 (take 5000 s)])"
  using assms by (simp add: analyze_try_p000_def too_short_p000_string)

lemma post_analyze_valid:
  assumes "get_prop req_body ''text'' = Inr (JStr s)" and "50 \<le> length s"
    and "\<not> key_missing w"
  shows "post_analyze js w req_body =
    (case try_bind (received (generateContent w (user_part (take 5000 s)))) (\<lambda>parsed.
          try_bind (validate js parsed) (\<lambda>analysis.
          try_bind (log_line js analysis) (\<lambda>line. Inr (res_json analysis)))) of
       Inl e \<Rightarrow> res_status_json 500 failure_result
     | Inr r \<Rightarrow> r,
     [user_part (take 5000 s)])"
  by (simp add: post_analyze_def analyze_try_valid [OF assms] split: sum.split)

lemma post_analyze_p000_valid:
  assumes "get_prop req_body ''text'' = Inr (JStr s)" and "50 \<le> length s"
    and "\<not> key_missing w"
  shows "post_analyze_p000 js w req_body =
    (case try_bind (received (generateContent w (user_part_p000 (take 5000 s)))) (\<lambda>parsed.
          try_bind (validate js parsed) (\<lambda>jsonResponse.
          try_bind (log_lines_p000 js jsonResponse) (\<lambda>lines. Inr (res_json jsonResponse)))) of
       Inl e \<Rightarrow> res_status_json 500 failure_result_p000
     | Inr r \<Rightarrow> r,
     [user_part_p000 (take 5000 s)])"
  by (simp add: post_analyze_p000_def analyze_try_p000_valid [OF assms] split: sum.split)

text \<open>An answer 200 after the call is the validated reply.\<close>

lemma answered_200:
  assumes "(case try_bind (validate js parsed) (\<lambda>a. try_bind (lg a) (\<lambda>l. Inr (res_json a))) of
             Inl e \<Rightarrow> res_status_json 500 v | Inr r \<Rightarrow> r) = resp"
    and "status resp = 200"
  shows "\<exists>a. validate js parsed = Inr a \<and> resp = res_json a"
proof (cases "validate js parsed")
  case (Inl e)
  with assms show ?thesis by (auto simp: try_bind_simps res_status_json_def)
next
  case (Inr a)
  show ?thesis
  proof (cases "lg a")
    case (Inl e)
    with Inr assms show ?thesis by (auto simp: try_bind_simps res_status_json_def)
  next
    case (Inr l)
    with \<open>validate js parsed = Inr a\<close> assms show ?thesis by (auto simp: try_bind_simps)
  qed
qed

lemma post_analyze_200:
  assumes "\<not> key_missing w"
    and "get_prop req_body ''text'' = Inr (JStr s)" and "50 \<le> length s"
    and "generateContent w (user_part (take 5000 s)) = ReplyJSON parsed"
    and "status (fst (post_analyze js w req_body)) = 200"
  shows "\<exists>a. validate js parsed = Inr a \<and> fst (post_analyze js w req_body) = res_json a"
proof (rule answered_200 [OF _ assms(5)])
  show "(case try_bind (validate js parsed)
               (\<lambda>a. try_bind (log_line js a) (\<lambda>l. Inr (res_json a))) of
          Inl e \<Rightarrow> res_status_json 500 failure_result | Inr r \<Rightarrow> r)
        = fst (post_analyze js w req_body)"
    by (simp add: post_analyze_valid [OF assms(2,3,1)] assms(4) try_bind_simps)
qed

lemma post_analyze_p000_200:
  assumes "\<not> key_missing w"
    and "get_prop req_body ''text'' = Inr (JStr s)" and "50 \<le> length s"
    and "generateContent w (user_part_p000 (take 5000 s)) = ReplyJSON parsed"
    and "status (fst (post_analyze_p000 js w req_body)) = 200"
  shows "\<exists>a. validate js parsed = Inr a \<and> fst (post_analyze_p000 js w req_body) = res_json a"
proof (rule answered_200 [OF _ assms(5)])
  show "(case try_bind (validate js parsed)
               (\<lambda>a. try_bind (log_lines_p000 js a) (\<lambda>l. Inr (res_json a))) of
          Inl e \<Rightarrow> res_status_json 500 failure_result_p000 | Inr r \<Rightarrow> r)
        = fst (post_analyze_p000 js w req_body)"
    by (simp add: post_analyze_p000_valid [OF assms(2,3,1)] assms(4) try_bind_simps)
qed

section \<open>Input validation\<close>

text \<open>
  Claim C1, as amended. Let the body of the request give a \<open>text\<close> (the body is
  neither \<^verbatim>\<open>undefined\<close> nor \<^verbatim>\<open>null\<close>). If the text is missing, is
  not a string, or is a string shorter than 50 characters, the handler of
  \<^verbatim>\<open>server.js\<close> answers 200 with exactly the body score 5, risk Medium Risk,
  summary \<^verbatim>\<open>Post too short for meaningful analysis.\<close>, no sources and no
  claims, and sends nothing to the provider, whatever the key and the provider are.
  The handler of \<^verbatim>\<open>part_000\<close> answers 200 and sends nothing when the text is
  falsy or is a string shorter than 50 characters; its body has the same score,
  risk, sources and claims, with an error marker and the summary
  \<^verbatim>\<open>Post too short for meaningful fact-check.\<close>
\<close>

theorem short_text_canned:
  assumes "get_prop req_body ''text'' = Inr text"
  shows "(text = JUndefined \<or> typeof text \<noteq> ''string'' \<or> (\<exists>s. text = JStr s \<and> length s < 50)
            \<longrightarrow> post_analyze js w req_body
                = (\<lparr>status = 200,
                    json = JObj [(''score'', JNum (Fin 5)),
                                 (''risk'', JStr ''Medium Risk''),
                                 (''summary'', JStr ''Post too short for meaningful analysis.''),
                                 (''sources'', JArr [] []),
                                 (''claimsChecked'', JNum (Fin 0))]\<rparr>, []))
       \<and> (\<not> truthy text \<or> (\<exists>s. text = JStr s \<and> length s < 50)
            \<longrightarrow> post_analyze_p000 js w req_body
                = (\<lparr>status = 200,
                    json = JObj [(''error'', JStr ''Post too short''),
                                 (''score'', JNum (Fin 5)),
                                 (''risk'', JStr ''Medium Risk''),
                                 (''summary'', JStr ''Post too short for meaningful fact-check.''),
                                 (''sources'', JArr [] []),
                                 (''claimsChecked'', JNum (Fin 0))]\<rparr>, []))"
proof (intro conjI impI)
  assume "text = JUndefined \<or> typeof text \<noteq> ''string'' \<or> (\<exists>s. text = JStr s \<and> length s < 50)"
  then have "too_short text"
    by (auto simp: too_short_def)
  then show "post_analyze js w req_body
                = (\<lparr>status = 200,
                    json = JObj [(''score'', JNum (Fin 5)),
                                 (''risk'', JStr ''Medium Risk''),
                                 (''summary'', JStr ''Post too short for meaningful analysis.''),
                                 (''sources'', JArr [] []),
                                 (''claimsChecked'', JNum (Fin 0))]\<rparr>, [])"
    using assms by (simp add: post_analyze_def analyze_try_def res_json_def short_result_def)
next
  assume "\<not> truthy text \<or> (\<exists>s. text = JStr s \<and> length s < 50)"
  then have "too_short_p000 js text = Inr True"
    using falsy_too_short_p000 short_string_too_short_p000 by blast
  then show "post_analyze_p000 js w req_body
                = (\<lparr>status = 200,
                    json = JObj [(''error'', JStr ''Post too short''),
                                 (''score'', JNum (Fin 5)),
                                 (''risk'', JStr ''Medium Risk''),
                                 (''summary'', JStr ''Post too short for meaningful fact-check.''),
                                 (''sources'', JArr [] []),
                                 (''claimsChecked'', JNum (Fin 0))]\<rparr>, [])"
    using assms
    by (simp add: post_analyze_p000_def analyze_try_p000_def res_json_def short_result_p000_def)
qed

text \<open>The theorem at the empty text and, for \<^verbatim>\<open>server.js\<close>, at a text that is a number.\<close>

theorem short_text_canned_witness:
  "\<forall>js. post_analyze js \<lparr>GEMINI_API_KEY = Some ''key'', generateContent = (\<lambda>p. CallThrows)\<rparr>
           (JObj [(''text'', JStr [])])
         = (\<lparr>status = 200,
             json = JObj [(''score'', JNum (Fin 5)),
                          (''risk'', JStr ''Medium Risk''),
                          (''summary'', JStr ''Post too short for meaningful analysis.''),
                          (''sources'', JArr [] []),
                          (''claimsChecked'', JNum (Fin 0))]\<rparr>, [])
      \<and> post_analyze_p000 js \<lparr>GEMINI_API_KEY = Some ''key'', generateContent = (\<lambda>p. CallThrows)\<rparr>
           (JObj [(''text'', JStr [])])
         = (\<lparr>status = 200,
             json = JObj [(''error'', JStr ''Post too short''),
                          (''score'', JNum (Fin 5)),
                          (''risk'', JStr ''Medium Risk''),
                          (''summary'', JStr ''Post too short for meaningful fact-check.''),
                          (''sources'', JArr [] []),
                          (''claimsChecked'', JNum (Fin 0))]\<rparr>, [])
      \<and> post_analyze js \<lparr>GEMINI_API_KEY = Some ''key'', generateContent = (\<lambda>p. CallThrows)\<rparr>
           (JObj [(''text'', JNum (Fin 12345))])
         = (\<lparr>status = 200,
             json = JObj [(''score'', JNum (Fin 5)),
                          (''risk'', JStr ''Medium Risk''),
                          (''summary'', JStr ''Post too short for meaningful analysis.''),
                          (''sources'', JArr [] []),
                          (''claimsChecked'', JNum (Fin 0))]\<rparr>, [])"
proof
  fix js
  let ?w = "\<lparr>GEMINI_API_KEY = Some ''key'', generateContent = (\<lambda>p. CallThrows)\<rparr>"
  have t: "get_prop (JObj [(''text'', JStr [])]) ''text'' = Inr (JStr [])"
    by (simp add: own_def)
  have n: "get_prop (JObj [(''text'', JNum (Fin 12345))]) ''text'' = Inr (JNum (Fin 12345))"
    by (simp add: own_def)
  from short_text_canned [OF t, of js ?w] short_text_canned [OF n, of js ?w]
  show "post_analyze js ?w (JObj [(''text'', JStr [])])
         = (\<lparr>status = 200,
             json = JObj [(''score'', JNum (Fin 5)),
                          (''risk'', JStr ''Medium Risk''),
                          (''summary'', JStr ''Post too short for meaningful analysis.''),
                          (''sources'', JArr [] []),
                          (''claimsChecked'', JNum (Fin 0))]\<rparr>, [])
      \<and> post_analyze_p000 js ?w (JObj [(''text'', JStr [])])
         = (\<lparr>status = 200,
             json = JObj [(''error'', JStr ''Post too short''),
                          (''score'', JNum (Fin 5)),
                          (''risk'', JStr ''Medium Risk''),
                          (''summary'', JStr ''Post too short for meaningful fact-check.''),
                          (''sources'', JArr [] []),
                          (''claimsChecked'', JNum (Fin 0))]\<rparr>, [])
      \<and> post_analyze js ?w (JObj [(''text'', JNum (Fin 12345))])
         = (\<lparr>status = 200,
             json = JObj [(''score'', JNum (Fin 5)),
                          (''risk'', JStr ''Medium Risk''),
                          (''summary'', JStr ''Post too short for meaningful analysis.''),
                          (''sources'', JArr [] []),
                          (''claimsChecked'', JNum (Fin 0))]\<rparr>, [])"
    by simp
qed

text \<open>
  The claim as written gives one body for the empty text. The handler of
  \<^verbatim>\<open>part_000\<close> answers with another one, which has an error marker and its
  own summary.
\<close>

theorem short_text_body_counterexample:
  "\<forall>js. json (fst (post_analyze_p000 js
          \<lparr>GEMINI_API_KEY = Some ''key'', generateContent = (\<lambda>p. CallThrows)\<rparr>
          (JObj [(''text'', JStr [])])))
       = JObj [(''error'', JStr ''Post too short''),
             (''score'', JNum (Fin 5)),
             (''risk'', JStr ''Medium Risk''),
             (''summary'', JStr ''Post too short for meaningful fact-check.''),
             (''sources'', JArr [] []),
             (''claimsChecked'', JNum (Fin 0))]
     \<and> json (fst (post_analyze_p000 js
          \<lparr>GEMINI_API_KEY = Some ''key'', generateContent = (\<lambda>p. CallThrows)\<rparr>
          (JObj [(''text'', JStr [])])))
       \<noteq> JObj [(''score'', JNum (Fin 5)),
             (''risk'', JStr ''Medium Risk''),
             (''summary'', JStr ''Post too short for meaningful analysis.''),
             (''sources'', JArr [] []),
             (''claimsChecked'', JNum (Fin 0))]"
  by (simp add: post_analyze_p000_def analyze_try_p000_def own_def too_short_p000_def
      res_json_def short_result_p000_def)

text \<open>
  The handler of \<^verbatim>\<open>part_000\<close> does not test the type of the text, as that of
  \<^verbatim>\<open>server.js\<close> does. A text that is a number is truthy and has no length
  below 50, so it passes; with the key set \<^verbatim>\<open>text.substring\<close> then throws and
  the answer is the failure. The amended claim says nothing of such a text there.
\<close>

lemma nonstring_text_p000:
  "fst (post_analyze_p000 js
          \<lparr>GEMINI_API_KEY = Some ''key'', generateContent = (\<lambda>p. CallThrows)\<rparr>
          (JObj [(''text'', JNum (Fin 12345))]))
     = res_status_json 500 failure_result_p000"
  by (simp add: post_analyze_p000_def analyze_try_p000_def own_def too_short_p000_def
      js_less_def try_bind_simps key_missing_def)

section \<open>The score of the answer\<close>

text \<open>
  Claim C2 says that the score of the answer lies between 0 and 10 whatever the
  provider supplied. The theorem runs both handlers on a reply whose score is the
  string \<^verbatim>\<open>high\<close>, which no engine reads as a number. The string is truthy, so
  the default 5 is not taken; \<^verbatim>\<open>Math.max\<close> converts it to NaN and
  \<^verbatim>\<open>Math.min\<close> keeps NaN: the answer is 200 with a score that is not in the
  interval.
\<close>

theorem nonnumeric_score_leaks_nan:
  assumes "StringToNumber js ''high'' = NaN"
  shows "fst (post_analyze js
           \<lparr>GEMINI_API_KEY = Some ''key'',
            generateContent = (\<lambda>p. ReplyJSON (JObj
              [(''score'', JStr ''high''), (''risk'', JStr ''High Risk''),
               (''summary'', JStr ''Debunked.''), (''sources'', JArr [] []),
               (''claimsChecked'', JNum (Fin 1))]))\<rparr>
           (JObj [(''text'', JStr (replicate 50 CHR ''a''))]))
         = res_json (JObj
              [(''score'', JNum NaN), (''risk'', JStr ''High Risk''),
               (''summary'', JStr ''Debunked.''), (''sources'', JArr [] []),
               (''claimsChecked'', JNum (Fin 1))])
       \<and> fst (post_analyze_p000 js
           \<lparr>GEMINI_API_KEY = Some ''key'',
            generateContent = (\<lambda>p. ReplyJSON (JObj
              [(''score'', JStr ''high''), (''risk'', JStr ''High Risk''),
               (''summary'', JStr ''Debunked.''), (''sources'', JArr [] []),
               (''claimsChecked'', JNum (Fin 1))]))\<rparr>
           (JObj [(''text'', JStr (replicate 50 CHR ''a''))]))
         = res_json (JObj
              [(''score'', JNum NaN), (''risk'', JStr ''High Risk''),
               (''summary'', JStr ''Debunked.''), (''sources'', JArr [] []),
               (''claimsChecked'', JNum (Fin 1))])
       \<and> \<not> in_0_10 (JNum NaN)"
  using assms by (simp add: eval_defs)

text \<open>The theorem on an engine that reads no string as a number.\<close>

theorem nonnumeric_score_leaks_nan_witness:
  "fst (post_analyze \<lparr>StringToNumber = (\<lambda>s. NaN), NumberToString = (\<lambda>n. ''NaN'')\<rparr>
           \<lparr>GEMINI_API_KEY = Some ''key'',
            generateContent = (\<lambda>p. ReplyJSON (JObj
              [(''score'', JStr ''high''), (''risk'', JStr ''High Risk''),
               (''summary'', JStr ''Debunked.''), (''sources'', JArr [] []),
               (''claimsChecked'', JNum (Fin 1))]))\<rparr>
           (JObj [(''text'', JStr (replicate 50 CHR ''a''))]))
         = res_json (JObj
              [(''score'', JNum NaN), (''risk'', JStr ''High Risk''),
               (''summary'', JStr ''Debunked.''), (''sources'', JArr [] []),
               (''claimsChecked'', JNum (Fin 1))])"
  using nonnumeric_score_leaks_nan
    [of "\<lparr>StringToNumber = (\<lambda>s. NaN), NumberToString = (\<lambda>n. ''NaN'')\<rparr>"]
  by simp

section \<open>The missing key\<close>

text \<open>
  Claim C3, as amended. When the key is unset or empty, every request whose text is
  a string of at least 50 characters is answered 500 with a body that carries an
  error marker and score 5, risk Medium Risk, no sources and no claims (the summary
  and the wording of the marker are those of the file), and nothing is sent to the
  provider.
\<close>

theorem missing_key_config_error:
  assumes "GEMINI_API_KEY w = None \<or> GEMINI_API_KEY w = Some []"
    and "get_prop req_body ''text'' = Inr (JStr s)" and "50 \<le> length s"
  shows "post_analyze js w req_body
           = (\<lparr>status = 500,
               json = JObj [(''error'', JStr ''Server configuration error''),
                            (''score'', JNum (Fin 5)),
                            (''risk'', JStr ''Medium Risk''),
                            (''summary'', JStr ''Server not properly configured.''),
                            (''sources'', JArr [] []),
                            (''claimsChecked'', JNum (Fin 0))]\<rparr>, [])
       \<and> post_analyze_p000 js w req_body
           = (\<lparr>status = 500,
               json = JObj [(''error'', JStr ''API key not configured''),
                            (''score'', JNum (Fin 5)),
                            (''risk'', JStr ''Medium Risk''),
                            (''summary'',
                               JStr ''Server configuration error. Contact administrator.''),
                            (''sources'', JArr [] []),
                            (''claimsChecked'', JNum (Fin 0))]\<rparr>, [])"
proof -
  have "key_missing w"
    using assms(1) by (auto simp: key_missing_def)
  then show ?thesis
    using assms(2,3)
    by (simp add: post_analyze_def analyze_try_def too_short_string
      post_analyze_p000_def analyze_try_p000_def too_short_p000_string
      res_status_json_def config_error_result_def config_error_result_p000_def)
qed

text \<open>The theorem at a text of 50 characters, the key unset.\<close>

theorem missing_key_config_error_witness:
  "\<forall>js. post_analyze js \<lparr>GEMINI_API_KEY = None, generateContent = (\<lambda>p. CallThrows)\<rparr>
           (JObj [(''text'', JStr (replicate 50 CHR ''a''))])
         = (\<lparr>status = 500,
             json = JObj [(''error'', JStr ''Server configuration error''),
                          (''score'', JNum (Fin 5)),
                          (''risk'', JStr ''Medium Risk''),
                          (''summary'', JStr ''Server not properly configured.''),
                          (''sources'', JArr [] []),
                          (''claimsChecked'', JNum (Fin 0))]\<rparr>, [])
      \<and> post_analyze_p000 js \<lparr>GEMINI_API_KEY = None, generateContent = (\<lambda>p. CallThrows)\<rparr>
           (JObj [(''text'', JStr (replicate 50 CHR ''a''))])
         = (\<lparr>status = 500,
             json = JObj [(''error'', JStr ''API key not configured''),
                          (''score'', JNum (Fin 5)),
                          (''risk'', JStr ''Medium Risk''),
                          (''summary'',
                             JStr ''Server configuration error. Contact administrator.''),
                          (''sources'', JArr [] []),
                          (''claimsChecked'', JNum (Fin 0))]\<rparr>, [])"
proof
  fix js
  let ?w = "\<lparr>GEMINI_API_KEY = None, generateContent = (\<lambda>p. CallThrows)\<rparr>"
  have k: "GEMINI_API_KEY ?w = None \<or> GEMINI_API_KEY ?w = Some []"
    by simp
  have t: "get_prop (JObj [(''text'', JStr (replicate 50 CHR ''a''))]) ''text''
         = Inr (JStr (replicate 50 CHR ''a''))"
    by (simp add: own_def)
  have l: "50 \<le> length (replicate 50 CHR ''a'')"
    by simp
  from missing_key_config_error [OF k t l, of js]
  show "post_analyze js ?w (JObj [(''text'', JStr (replicate 50 CHR ''a''))])
         = (\<lparr>status = 500,
             json = JObj [(''error'', JStr ''Server configuration error''),
                          (''score'', JNum (Fin 5)),
                          (''risk'', JStr ''Medium Risk''),
                          (''summary'', JStr ''Server not properly configured.''),
                          (''sources'', JArr [] []),
                          (''claimsChecked'', JNum (Fin 0))]\<rparr>, [])
      \<and> post_analyze_p000 js ?w (JObj [(''text'', JStr (replicate 50 CHR ''a''))])
         = (\<lparr>status = 500,
             json = JObj [(''error'', JStr ''API key not configured''),
                          (''score'', JNum (Fin 5)),
                          (''risk'', JStr ''Medium Risk''),
                          (''summary'',
                             JStr ''Server configuration error. Contact administrator.''),
                          (''sources'', JArr [] []),
                          (''claimsChecked'', JNum (Fin 0))]\<rparr>, [])"
    by simp
qed

text \<open>
  The claim as written gives 500 for every text. The test of the text comes first:
  with the key unset, the empty text is answered 200 by both handlers.
\<close>

theorem missing_key_short_text_counterexample:
  "\<forall>js. status (fst (post_analyze js
            \<lparr>GEMINI_API_KEY = None, generateContent = (\<lambda>p. CallThrows)\<rparr>
            (JObj [(''text'', JStr [])]))) = 200
      \<and> status (fst (post_analyze_p000 js
            \<lparr>GEMINI_API_KEY = None, generateContent = (\<lambda>p. CallThrows)\<rparr>
            (JObj [(''text'', JStr [])]))) = 200"
  by (simp add: post_analyze_def analyze_try_def own_def too_short_def
      post_analyze_p000_def analyze_try_p000_def too_short_p000_def res_json_def)

section \<open>Failures of the provider\<close>

text \<open>
  Claim C4, as amended. Let the key be set and the text be a string of at least 50
  characters, so that the provider is called. If the call throws or its reply is
  not JSON, the handler answers 500 with the body error marker
  \<^verbatim>\<open>Analysis failed\<close>, score 5, risk Medium Risk, the failure summary of the
  file, no sources and no claims. No exception leaves the handler: whatever the
  provider does, the answer is either this failure or 200 with the validated
  reply. The failure body carries the error marker and is a fully shaped result.
  Nothing is said of the shape of an answer 200.
\<close>

theorem upstream_failure_canned:
  assumes "\<exists>k. GEMINI_API_KEY w = Some k \<and> k \<noteq> []"
    and "get_prop req_body ''text'' = Inr (JStr s)" and "50 \<le> length s"
  shows "(generateContent w (''Fact-check this:'' @ [CHR 0x0A, CHR 0x0A] @ take 5000 s)
            = CallThrows
          \<or> generateContent w (''Fact-check this:'' @ [CHR 0x0A, CHR 0x0A] @ take 5000 s)
            = ReplyNotJSON
          \<longrightarrow> fst (post_analyze js w req_body)
              = \<lparr>status = 500,
                 json = JObj [(''error'', JStr ''Analysis failed''),
                              (''score'', JNum (Fin 5)),
                              (''risk'', JStr ''Medium Risk''),
                              (''summary'',
                                 JStr ''Could not complete fact-check due to server error.''),
                              (''sources'', JArr [] []),
                              (''claimsChecked'', JNum (Fin 0))]\<rparr>)
       \<and> (generateContent w (''Fact-check this post:'' @ [CHR 0x0A, CHR 0x0A] @ take 5000 s)
            = CallThrows
          \<or> generateContent w (''Fact-check this post:'' @ [CHR 0x0A, CHR 0x0A] @ take 5000 s)
            = ReplyNotJSON
          \<longrightarrow> fst (post_analyze_p000 js w req_body)
              = \<lparr>status = 500,
                 json = JObj [(''error'', JStr ''Analysis failed''),
                              (''score'', JNum (Fin 5)),
                              (''risk'', JStr ''Medium Risk''),
                              (''summary'',
                                 JStr ''Could not complete fact-check. Server error occurred.''),
                              (''sources'', JArr [] []),
                              (''claimsChecked'', JNum (Fin 0))]\<rparr>)
       \<and> (fst (post_analyze js w req_body)
              = \<lparr>status = 500,
                 json = JObj [(''error'', JStr ''Analysis failed''),
                              (''score'', JNum (Fin 5)),
                              (''risk'', JStr ''Medium Risk''),
                              (''summary'',
                                 JStr ''Could not complete fact-check due to server error.''),
                              (''sources'', JArr [] []),
                              (''claimsChecked'', JNum (Fin 0))]\<rparr>
          \<or> (\<exists>parsed a.
                generateContent w (''Fact-check this:'' @ [CHR 0x0A, CHR 0x0A] @ take 5000 s)
                  = ReplyJSON parsed
                \<and> validate js parsed = Inr a
                \<and> fst (post_analyze js w req_body) = \<lparr>status = 200, json = a\<rparr>))
       \<and> (fst (post_analyze_p000 js w req_body)
              = \<lparr>status = 500,
                 json = JObj [(''error'', JStr ''Analysis failed''),
                              (''score'', JNum (Fin 5)),
                              (''risk'', JStr ''Medium Risk''),
                              (''summary'',
                                 JStr ''Could not complete fact-check. Server error occurred.''),
                              (''sources'', JArr [] []),
                              (''claimsChecked'', JNum (Fin 0))]\<rparr>
          \<or> (\<exists>parsed a.
                generateContent w
                    (''Fact-check this post:'' @ [CHR 0x0A, CHR 0x0A] @ take 5000 s)
                  = ReplyJSON parsed
                \<and> validate js parsed = Inr a
                \<and> fst (post_analyze_p000 js w req_body) = \<lparr>status = 200, json = a\<rparr>))
       \<and> own_error (JObj [(''error'', JStr ''Analysis failed''),
                              (''score'', JNum (Fin 5)),
                              (''risk'', JStr ''Medium Risk''),
                              (''summary'',
                                 JStr ''Could not complete fact-check due to server error.''),
                              (''sources'', JArr [] []),
                              (''claimsChecked'', JNum (Fin 0))])
       \<and> well_formed_result (JObj [(''error'', JStr ''Analysis failed''),
                              (''score'', JNum (Fin 5)),
                              (''risk'', JStr ''Medium Risk''),
                              (''summary'',
                                 JStr ''Could not complete fact-check due to server error.''),
                              (''sources'', JArr [] []),
                              (''claimsChecked'', JNum (Fin 0))])
       \<and> own_error (JObj [(''error'', JStr ''Analysis failed''),
                              (''score'', JNum (Fin 5)),
                              (''risk'', JStr ''Medium Risk''),
                              (''summary'',
                                 JStr ''Could not complete fact-check. Server error occurred.''),
                              (''sources'', JArr [] []),
                              (''claimsChecked'', JNum (Fin 0))])
       \<and> well_formed_result (JObj [(''error'', JStr ''Analysis failed''),
                              (''score'', JNum (Fin 5)),
                              (''risk'', JStr ''Medium Risk''),
                              (''summary'',
                                 JStr ''Could not complete fact-check. Server error occurred.''),
                              (''sources'', JArr [] []),
                              (''claimsChecked'', JNum (Fin 0))])"
  (is "?failed \<and> ?failed_p000 \<and> ?either \<and> ?either_p000
       \<and> ?marker \<and> ?shape \<and> ?marker_p000 \<and> ?shape_p000")
proof -
  have key: "\<not> key_missing w"
    using assms(1) by (auto simp: key_missing_def)
  note valid = post_analyze_valid [OF assms(2,3) key, of js]
  note valid_p000 = post_analyze_p000_valid [OF assms(2,3) key, of js]
  have failed: ?failed
    by (auto simp: valid try_bind_simps user_part_def res_status_json_def failure_result_def)
  have failed_p000: ?failed_p000
    by (auto simp: valid_p000 try_bind_simps user_part_p000_def res_status_json_def
        failure_result_p000_def)
  have either: ?either
  proof (cases "generateContent w (user_part (take 5000 s))")
    case (ReplyJSON parsed)
    show ?thesis
    proof (cases "validate js parsed")
      case (Inr a)
      show ?thesis
      proof (cases "log_line js a")
        case (Inr line)
        with ReplyJSON \<open>validate js parsed = Inr a\<close> show ?thesis
          by (simp add: valid try_bind_simps user_part_def res_json_def)
      next
        case (Inl e)
        with ReplyJSON \<open>validate js parsed = Inr a\<close> show ?thesis
          by (simp add: valid try_bind_simps res_status_json_def failure_result_def)
      qed
    next
      case (Inl e)
      with ReplyJSON show ?thesis
        by (simp add: valid try_bind_simps res_status_json_def failure_result_def)
    qed
  qed (simp_all add: valid try_bind_simps res_status_json_def failure_result_def)
  have either_p000: ?either_p000
  proof (cases "generateContent w (user_part_p000 (take 5000 s))")
    case (ReplyJSON parsed)
    show ?thesis
    proof (cases "validate js parsed")
      case (Inr a)
      show ?thesis
      proof (cases "log_lines_p000 js a")
        case (Inr lines)
        with ReplyJSON \<open>validate js parsed = Inr a\<close> show ?thesis
          by (simp add: valid_p000 try_bind_simps user_part_p000_def res_json_def)
      next
        case (Inl e)
        with ReplyJSON \<open>validate js parsed = Inr a\<close> show ?thesis
          by (simp add: valid_p000 try_bind_simps res_status_json_def failure_result_p000_def)
      qed
    next
      case (Inl e)
      with ReplyJSON show ?thesis
        by (simp add: valid_p000 try_bind_simps res_status_json_def failure_result_p000_def)
    qed
  qed (simp_all add: valid_p000 try_bind_simps res_status_json_def failure_result_p000_def)
  have marker: ?marker and shape: ?shape and marker_p000: ?marker_p000
    and shape_p000: ?shape_p000
    by (simp_all add: own_error_def well_formed_result_def own_def)
  from failed failed_p000 either either_p000 marker shape marker_p000 shape_p000
  show ?thesis
    by (intro conjI)
qed

text \<open>The theorem at a call that throws and at a reply that is not JSON.\<close>

theorem upstream_failure_canned_witness:
  "\<forall>js. fst (post_analyze js
           \<lparr>GEMINI_API_KEY = Some ''key'', generateContent = (\<lambda>p. CallThrows)\<rparr>
           (JObj [(''text'', JStr (replicate 50 CHR ''a''))]))
         = \<lparr>status = 500,
            json = JObj [(''error'', JStr ''Analysis failed''),
                         (''score'', JNum (Fin 5)),
                         (''risk'', JStr ''Medium Risk''),
                         (''summary'',
                            JStr ''Could not complete fact-check due to server error.''),
                         (''sources'', JArr [] []),
                         (''claimsChecked'', JNum (Fin 0))]\<rparr>
      \<and> fst (post_analyze_p000 js
           \<lparr>GEMINI_API_KEY = Some ''key'', generateContent = (\<lambda>p. ReplyNotJSON)\<rparr>
           (JObj [(''text'', JStr (replicate 50 CHR ''a''))]))
         = \<lparr>status = 500,
            json = JObj [(''error'', JStr ''Analysis failed''),
                         (''score'', JNum (Fin 5)),
                         (''risk'', JStr ''Medium Risk''),
                         (''summary'',
                            JStr ''Could not complete fact-check. Server error occurred.''),
                         (''sources'', JArr [] []),
                         (''claimsChecked'', JNum (Fin 0))]\<rparr>"
proof
  fix js
  let ?w = "\<lparr>GEMINI_API_KEY = Some ''key'', generateContent = (\<lambda>p. CallThrows)\<rparr>"
  let ?v = "\<lparr>GEMINI_API_KEY = Some ''key'', generateContent = (\<lambda>p. ReplyNotJSON)\<rparr>"
  have k: "\<exists>k. GEMINI_API_KEY ?w = Some k \<and> k \<noteq> []"
    and k': "\<exists>k. GEMINI_API_KEY ?v = Some k \<and> k \<noteq> []"
    by simp_all
  have t: "get_prop (JObj [(''text'', JStr (replicate 50 CHR ''a''))]) ''text''
         = Inr (JStr (replicate 50 CHR ''a''))"
    by (simp add: own_def)
  have l: "50 \<le> length (replicate 50 CHR ''a'')"
    by simp
  have "fst (post_analyze js ?w (JObj [(''text'', JStr (replicate 50 CHR ''a''))]))
         = \<lparr>status = 500,
            json = JObj [(''error'', JStr ''Analysis failed''),
                         (''score'', JNum (Fin 5)),
                         (''risk'', JStr ''Medium Risk''),
                         (''summary'',
                            JStr ''Could not complete fact-check due to server error.''),
                         (''sources'', JArr [] []),
                         (''claimsChecked'', JNum (Fin 0))]\<rparr>"
    using upstream_failure_canned [OF k t l, of js, THEN conjunct1] by simp
  moreover
  have "fst (post_analyze_p000 js ?v (JObj [(''text'', JStr (replicate 50 CHR ''a''))]))
         = \<lparr>status = 500,
            json = JObj [(''error'', JStr ''Analysis failed''),
                         (''score'', JNum (Fin 5)),
                         (''risk'', JStr ''Medium Risk''),
                         (''summary'',
                            JStr ''Could not complete fact-check. Server error occurred.''),
                         (''sources'', JArr [] []),
                         (''claimsChecked'', JNum (Fin 0))]\<rparr>"
    using upstream_failure_canned [OF k' t l, of js, THEN conjunct2, THEN conjunct1] by simp
  ultimately
  show "fst (post_analyze js ?w (JObj [(''text'', JStr (replicate 50 CHR ''a''))]))
         = \<lparr>status = 500,
            json = JObj [(''error'', JStr ''Analysis failed''),
                         (''score'', JNum (Fin 5)),
                         (''risk'', JStr ''Medium Risk''),
                         (''summary'',
                            JStr ''Could not complete fact-check due to server error.''),
                         (''sources'', JArr [] []),
                         (''claimsChecked'', JNum (Fin 0))]\<rparr>
      \<and> fst (post_analyze_p000 js ?v (JObj [(''text'', JStr (replicate 50 CHR ''a''))]))
         = \<lparr>status = 500,
            json = JObj [(''error'', JStr ''Analysis failed''),
                         (''score'', JNum (Fin 5)),
                         (''risk'', JStr ''Medium Risk''),
                         (''summary'',
                            JStr ''Could not complete fact-check. Server error occurred.''),
                         (''sources'', JArr [] []),
                         (''claimsChecked'', JNum (Fin 0))]\<rparr>"
    by (rule conjI)
qed

text \<open>
  The claim as written has every path yield a fully shaped result. A reply that
  parses is handed on with the properties the provider sent: at a reply without a
  summary both handlers answer 200 with a body that has none.
\<close>

theorem partial_result_counterexample:
  "\<forall>js. fst (post_analyze js
           \<lparr>GEMINI_API_KEY = Some ''key'',
            generateContent = (\<lambda>p. ReplyJSON (JObj
              [(''score'', JNum (Fin 7)), (''risk'', JStr ''Trustworthy'')]))\<rparr>
           (JObj [(''text'', JStr (replicate 50 CHR ''a''))]))
         = \<lparr>status = 200,
            json = JObj [(''score'', JNum (Fin 7)), (''risk'', JStr ''Trustworthy''),
                         (''sources'', JArr [] []), (''claimsChecked'', JNum (Fin 0))]\<rparr>
      \<and> fst (post_analyze_p000 js
           \<lparr>GEMINI_API_KEY = Some ''key'',
            generateContent = (\<lambda>p. ReplyJSON (JObj
              [(''score'', JNum (Fin 7)), (''risk'', JStr ''Trustworthy'')]))\<rparr>
           (JObj [(''text'', JStr (replicate 50 CHR ''a''))]))
         = \<lparr>status = 200,
            json = JObj [(''score'', JNum (Fin 7)), (''risk'', JStr ''Trustworthy''),
                         (''sources'', JArr [] []), (''claimsChecked'', JNum (Fin 0))]\<rparr>
      \<and> get_prop (JObj [(''score'', JNum (Fin 7)), (''risk'', JStr ''Trustworthy''),
                         (''sources'', JArr [] []), (''claimsChecked'', JNum (Fin 0))])
            ''summary'' = Inr JUndefined
      \<and> \<not> well_formed_result
            (JObj [(''score'', JNum (Fin 7)), (''risk'', JStr ''Trustworthy''),
                   (''sources'', JArr [] []), (''claimsChecked'', JNum (Fin 0))])"
  by (simp add: eval_defs well_formed_result_def)

section \<open>The default of the score\<close>

text \<open>
  Claim C5 says that a score that is missing, non-numeric, zero or otherwise falsy
  becomes 5. The theorem runs the three assignments on replies whose score is not a
  number but is truthy: the string \<^verbatim>\<open>high\<close> and the empty object end as NaN
  and \<^verbatim>\<open>true\<close> ends as 1, none of them as 5. (A falsy score does become 5:
  lemma \<open>falsy_score_is_5\<close>.)
\<close>

theorem nonnumeric_score_not_defaulted:
  assumes "StringToNumber js ''high'' = NaN"
  shows "validate js (JObj [(''score'', JStr ''high''), (''risk'', JStr ''High Risk''),
               (''summary'', JStr ''Debunked.''), (''sources'', JArr [] []),
               (''claimsChecked'', JNum (Fin 1))])
         = Inr (JObj [(''score'', JNum NaN), (''risk'', JStr ''High Risk''),
               (''summary'', JStr ''Debunked.''), (''sources'', JArr [] []),
               (''claimsChecked'', JNum (Fin 1))])
       \<and> validate js (JObj [(''score'', JBool True)])
         = Inr (JObj [(''score'', JNum (Fin 1)), (''sources'', JArr [] []),
               (''claimsChecked'', JNum (Fin 0))])
       \<and> validate js (JObj [(''score'', JObj [])])
         = Inr (JObj [(''score'', JNum NaN), (''sources'', JArr [] []),
               (''claimsChecked'', JNum (Fin 0))])"
  using assms by (simp add: eval_defs)

text \<open>The theorem on an engine that reads no string as a number.\<close>

theorem nonnumeric_score_not_defaulted_witness:
  "validate \<lparr>StringToNumber = (\<lambda>s. NaN), NumberToString = (\<lambda>n. ''NaN'')\<rparr>
           (JObj [(''score'', JStr ''high''), (''risk'', JStr ''High Risk''),
               (''summary'', JStr ''Debunked.''), (''sources'', JArr [] []),
               (''claimsChecked'', JNum (Fin 1))])
         = Inr (JObj [(''score'', JNum NaN), (''risk'', JStr ''High Risk''),
               (''summary'', JStr ''Debunked.''), (''sources'', JArr [] []),
               (''claimsChecked'', JNum (Fin 1))])"
  using nonnumeric_score_not_defaulted
    [of "\<lparr>StringToNumber = (\<lambda>s. NaN), NumberToString = (\<lambda>n. ''NaN'')\<rparr>"]
  by simp

section \<open>The defaults of sources and claimsChecked\<close>

text \<open>
  Claim C6. Whenever the three assignments yield a result: if the reply has no
  \<^verbatim>\<open>sources\<close> (an absent property reads as \<^verbatim>\<open>undefined\<close>, which is
  falsy) or a falsy one such as \<^verbatim>\<open>null\<close>, the result's sources is the empty
  array; if the reply has no \<^verbatim>\<open>claimsChecked\<close> or a falsy one, the result's
  claimsChecked is 0.
\<close>

theorem defaults_when_absent:
  assumes "validate js analysis = Inr a"
  shows "(\<forall>sources. get_prop analysis ''sources'' = Inr sources \<and> \<not> truthy sources
            \<longrightarrow> get_prop a ''sources'' = Inr (JArr [] []))
       \<and> (\<forall>c. get_prop analysis ''claimsChecked'' = Inr c \<and> \<not> truthy c
            \<longrightarrow> get_prop a ''claimsChecked'' = Inr (JNum (Fin 0)))"
  using assms
proof (cases rule: validate_Inr)
  case obj
  then show ?thesis by (simp add: own_written js_or_def)
next
  case arr
  then show ?thesis by (simp add: own_written js_or_def)
qed

text \<open>The theorem at a reply that has neither property.\<close>

theorem defaults_when_absent_witness:
  "\<forall>js. validate js (JObj [(''score'', JNum (Fin 7)), (''risk'', JStr ''Trustworthy'')])
         = Inr (JObj [(''score'', JNum (Fin 7)), (''risk'', JStr ''Trustworthy''),
                      (''sources'', JArr [] []), (''claimsChecked'', JNum (Fin 0))])
      \<and> get_prop (JObj [(''score'', JNum (Fin 7)), (''risk'', JStr ''Trustworthy''),
                      (''sources'', JArr [] []), (''claimsChecked'', JNum (Fin 0))])
           ''sources'' = Inr (JArr [] [])
      \<and> get_prop (JObj [(''score'', JNum (Fin 7)), (''risk'', JStr ''Trustworthy''),
                      (''sources'', JArr [] []), (''claimsChecked'', JNum (Fin 0))])
           ''claimsChecked'' = Inr (JNum (Fin 0))"
proof
  fix js
  have v: "validate js (JObj [(''score'', JNum (Fin 7)), (''risk'', JStr ''Trustworthy'')])
         = Inr (JObj [(''score'', JNum (Fin 7)), (''risk'', JStr ''Trustworthy''),
                      (''sources'', JArr [] []), (''claimsChecked'', JNum (Fin 0))])"
    by (simp add: validate_obj written_def own_def js_or_def try_bind_simps)
  show "validate js (JObj [(''score'', JNum (Fin 7)), (''risk'', JStr ''Trustworthy'')])
         = Inr (JObj [(''score'', JNum (Fin 7)), (''risk'', JStr ''Trustworthy''),
                      (''sources'', JArr [] []), (''claimsChecked'', JNum (Fin 0))])
      \<and> get_prop (JObj [(''score'', JNum (Fin 7)), (''risk'', JStr ''Trustworthy''),
                      (''sources'', JArr [] []), (''claimsChecked'', JNum (Fin 0))])
           ''sources'' = Inr (JArr [] [])
      \<and> get_prop (JObj [(''score'', JNum (Fin 7)), (''risk'', JStr ''Trustworthy''),
                      (''sources'', JArr [] []), (''claimsChecked'', JNum (Fin 0))])
           ''claimsChecked'' = Inr (JNum (Fin 0))"
    using defaults_when_absent [OF v] v by (simp add: own_def)
qed

section \<open>Truncation\<close>

text \<open>
  Claim C7, as amended. Let the key be set and the text be a string \<open>s\<close> of at
  least 50 characters. Exactly one request goes to the provider, and its user part
  is \<^verbatim>\<open>Fact-check this:\<close> (\<^verbatim>\<open>Fact-check this post:\<close> in
  \<^verbatim>\<open>part_000\<close>), two line feeds and the first 5000 characters of \<open>s\<close>: all
  of \<open>s\<close> if it has at most 5000 characters; otherwise exactly 5000 characters,
  the rest of \<open>s\<close> being left out. The answer carries no sign of the cut: the
  handler answers \<open>s\<close> exactly as it answers the first 5000 characters of \<open>s\<close>.
\<close>

theorem truncation_silent:
  assumes "\<exists>k. GEMINI_API_KEY w = Some k \<and> k \<noteq> []"
    and "get_prop req_body ''text'' = Inr (JStr s)" and "50 \<le> length s"
  shows "snd (post_analyze js w req_body)
           = [''Fact-check this:'' @ [CHR 0x0A, CHR 0x0A] @ take 5000 s]
       \<and> snd (post_analyze_p000 js w req_body)
           = [''Fact-check this post:'' @ [CHR 0x0A, CHR 0x0A] @ take 5000 s]
       \<and> (length s \<le> 5000 \<longrightarrow>
             snd (post_analyze js w req_body)
               = [''Fact-check this:'' @ [CHR 0x0A, CHR 0x0A] @ s]
           \<and> snd (post_analyze_p000 js w req_body)
               = [''Fact-check this post:'' @ [CHR 0x0A, CHR 0x0A] @ s])
       \<and> (5000 < length s \<longrightarrow>
             (\<exists>cut. s = take 5000 s @ cut \<and> cut \<noteq> [] \<and> length (take 5000 s) = 5000))
       \<and> post_analyze js w req_body
           = post_analyze js w (JObj [(''text'', JStr (take 5000 s))])
       \<and> post_analyze_p000 js w req_body
           = post_analyze_p000 js w (JObj [(''text'', JStr (take 5000 s))])"
proof -
  have key: "\<not> key_missing w"
    using assms(1) by (auto simp: key_missing_def)
  have t: "get_prop (JObj [(''text'', JStr (take 5000 s))]) ''text'' = Inr (JStr (take 5000 s))"
    by (simp add: own_def)
  have l: "50 \<le> length (take 5000 s)"
    using assms(3) by simp
  have sent: "snd (post_analyze js w req_body)
           = [''Fact-check this:'' @ [CHR 0x0A, CHR 0x0A] @ take 5000 s]"
    by (simp add: post_analyze_valid [OF assms(2,3) key] user_part_def)
  have sent_p000: "snd (post_analyze_p000 js w req_body)
           = [''Fact-check this post:'' @ [CHR 0x0A, CHR 0x0A] @ take 5000 s]"
    by (simp add: post_analyze_p000_valid [OF assms(2,3) key] user_part_p000_def)
  have whole: "length s \<le> 5000 \<longrightarrow>
             snd (post_analyze js w req_body)
               = [''Fact-check this:'' @ [CHR 0x0A, CHR 0x0A] @ s]
           \<and> snd (post_analyze_p000 js w req_body)
               = [''Fact-check this post:'' @ [CHR 0x0A, CHR 0x0A] @ s]"
    using sent sent_p000 by simp
  have cut: "5000 < length s \<longrightarrow>
             (\<exists>cut. s = take 5000 s @ cut \<and> cut \<noteq> [] \<and> length (take 5000 s) = 5000)"
  proof
    assume "5000 < length s"
    then have "s = take 5000 s @ drop 5000 s \<and> drop 5000 s \<noteq> []
        \<and> length (take 5000 s) = 5000"
      by simp
    then show "\<exists>cut. s = take 5000 s @ cut \<and> cut \<noteq> [] \<and> length (take 5000 s) = 5000"
      by blast
  qed
  have same: "post_analyze js w req_body
           = post_analyze js w (JObj [(''text'', JStr (take 5000 s))])"
    by (simp add: post_analyze_valid [OF assms(2,3) key] post_analyze_valid [OF t l key])
  have same_p000: "post_analyze_p000 js w req_body
           = post_analyze_p000 js w (JObj [(''text'', JStr (take 5000 s))])"
    by (simp add: post_analyze_p000_valid [OF assms(2,3) key]
        post_analyze_p000_valid [OF t l key])
  from sent sent_p000 whole cut same same_p000 show ?thesis
    by (intro conjI)
qed

text \<open>The theorem at a text of 6000 characters.\<close>

theorem truncation_silent_witness:
  "\<forall>js. snd (post_analyze js
            \<lparr>GEMINI_API_KEY = Some ''key'', generateContent = (\<lambda>p. CallThrows)\<rparr>
            (JObj [(''text'', JStr (replicate 6000 CHR ''a''))]))
         = [''Fact-check this:'' @ [CHR 0x0A, CHR 0x0A] @ replicate 5000 CHR ''a'']
      \<and> snd (post_analyze_p000 js
            \<lparr>GEMINI_API_KEY = Some ''key'', generateContent = (\<lambda>p. CallThrows)\<rparr>
            (JObj [(''text'', JStr (replicate 6000 CHR ''a''))]))
         = [''Fact-check this post:'' @ [CHR 0x0A, CHR 0x0A] @ replicate 5000 CHR ''a'']"
proof
  fix js
  let ?w = "\<lparr>GEMINI_API_KEY = Some ''key'', generateContent = (\<lambda>p. CallThrows)\<rparr>"
  have k: "\<exists>k. GEMINI_API_KEY ?w = Some k \<and> k \<noteq> []"
    by simp
  have t: "get_prop (JObj [(''text'', JStr (replicate 6000 CHR ''a''))]) ''text''
         = Inr (JStr (replicate 6000 CHR ''a''))"
    by (simp add: own_def)
  have l: "50 \<le> length (replicate 6000 CHR ''a'')"
    by simp
  have c: "take 5000 (replicate 6000 CHR ''a'') = replicate 5000 CHR ''a''"
    by simp
  from truncation_silent [OF k t l, of js]
  have "snd (post_analyze js ?w (JObj [(''text'', JStr (replicate 6000 CHR ''a''))]))
         = [''Fact-check this:'' @ [CHR 0x0A, CHR 0x0A] @ take 5000 (replicate 6000 CHR ''a'')]"
    and "snd (post_analyze_p000 js ?w (JObj [(''text'', JStr (replicate 6000 CHR ''a''))]))
         = [''Fact-check this post:'' @ [CHR 0x0A, CHR 0x0A]
              @ take 5000 (replicate 6000 CHR ''a'')]"
    by blast+
  then show "snd (post_analyze js ?w (JObj [(''text'', JStr (replicate 6000 CHR ''a''))]))
         = [''Fact-check this:'' @ [CHR 0x0A, CHR 0x0A] @ replicate 5000 CHR ''a'']
      \<and> snd (post_analyze_p000 js ?w (JObj [(''text'', JStr (replicate 6000 CHR ''a''))]))
         = [''Fact-check this post:'' @ [CHR 0x0A, CHR 0x0A] @ replicate 5000 CHR ''a'']"
    unfolding c by (intro conjI)
qed

text \<open>
  The claim as written has the first 5000 characters sent for every valid text.
  With the key unset a text of 6000 characters is answered 500 by the test of the
  key and nothing is sent.
\<close>

theorem nothing_sent_without_key_counterexample:
  "\<forall>js. post_analyze js
            \<lparr>GEMINI_API_KEY = None, generateContent = (\<lambda>p. CallThrows)\<rparr>
            (JObj [(''text'', JStr (replicate 6000 CHR ''a''))])
         = (\<lparr>status = 500,
             json = JObj [(''error'', JStr ''Server configuration error''),
                          (''score'', JNum (Fin 5)),
                          (''risk'', JStr ''Medium Risk''),
                          (''summary'', JStr ''Server not properly configured.''),
                          (''sources'', JArr [] []),
                          (''claimsChecked'', JNum (Fin 0))]\<rparr>, [])
      \<and> snd (post_analyze_p000 js
            \<lparr>GEMINI_API_KEY = None, generateContent = (\<lambda>p. CallThrows)\<rparr>
            (JObj [(''text'', JStr (replicate 6000 CHR ''a''))])) = []"
  by (simp add: post_analyze_def analyze_try_def own_def too_short_string key_missing_def
      post_analyze_p000_def analyze_try_p000_def too_short_p000_string
      res_status_json_def config_error_result_def)

section \<open>The risk of the answer\<close>

text \<open>
  Claim C8, as amended. Let the key be set, the text be a string of at least 50
  characters and the reply of the provider parse to a value. Whenever the handler
  answers 200, the risk of the answer is the risk of the reply, unchanged, and so is
  every property other than score, sources and claimsChecked: the risk is checked
  against nothing.
\<close>

theorem risk_passes_through:
  assumes "\<not> key_missing w"
    and "get_prop req_body ''text'' = Inr (JStr s)" and "50 \<le> length s"
  shows "(generateContent w (user_part (take 5000 s)) = ReplyJSON parsed
          \<and> status (fst (post_analyze js w req_body)) = 200
          \<longrightarrow> get_prop (json (fst (post_analyze js w req_body))) ''risk''
                = get_prop parsed ''risk''
            \<and> (\<forall>k. k \<noteq> ''score'' \<and> k \<noteq> ''sources'' \<and> k \<noteq> ''claimsChecked''
                  \<longrightarrow> get_prop (json (fst (post_analyze js w req_body))) k
                      = get_prop parsed k))
       \<and> (generateContent w (user_part_p000 (take 5000 s)) = ReplyJSON parsed
          \<and> status (fst (post_analyze_p000 js w req_body)) = 200
          \<longrightarrow> get_prop (json (fst (post_analyze_p000 js w req_body))) ''risk''
                = get_prop parsed ''risk''
            \<and> (\<forall>k. k \<noteq> ''score'' \<and> k \<noteq> ''sources'' \<and> k \<noteq> ''claimsChecked''
                  \<longrightarrow> get_prop (json (fst (post_analyze_p000 js w req_body))) k
                      = get_prop parsed k))"
proof (intro conjI impI; elim conjE)
  assume "generateContent w (user_part (take 5000 s)) = ReplyJSON parsed"
    and "status (fst (post_analyze js w req_body)) = 200"
  from post_analyze_200 [OF assms this]
  obtain a where a: "validate js parsed = Inr a" "fst (post_analyze js w req_body) = res_json a"
    by blast
  show "get_prop (json (fst (post_analyze js w req_body))) ''risk'' = get_prop parsed ''risk''"
    using validate_frame [OF a(1), of "''risk''"] a(2) by simp
  show "\<forall>k. k \<noteq> ''score'' \<and> k \<noteq> ''sources'' \<and> k \<noteq> ''claimsChecked''
          \<longrightarrow> get_prop (json (fst (post_analyze js w req_body))) k = get_prop parsed k"
    using validate_frame [OF a(1)] a(2) by simp
next
  assume "generateContent w (user_part_p000 (take 5000 s)) = ReplyJSON parsed"
    and "status (fst (post_analyze_p000 js w req_body)) = 200"
  from post_analyze_p000_200 [OF assms this]
  obtain a where a: "validate js parsed = Inr a"
      "fst (post_analyze_p000 js w req_body) = res_json a"
    by blast
  show "get_prop (json (fst (post_analyze_p000 js w req_body))) ''risk''
      = get_prop parsed ''risk''"
    using validate_frame [OF a(1), of "''risk''"] a(2) by simp
  show "\<forall>k. k \<noteq> ''score'' \<and> k \<noteq> ''sources'' \<and> k \<noteq> ''claimsChecked''
          \<longrightarrow> get_prop (json (fst (post_analyze_p000 js w req_body))) k = get_prop parsed k"
    using validate_frame [OF a(1)] a(2) by simp
qed

text \<open>
  The theorem at the reply of the example scenario of the specification: score 9,
  Trustworthy, one source, three claims.
\<close>

theorem risk_passes_through_witness:
  "\<forall>js. status (fst (post_analyze js
           \<lparr>GEMINI_API_KEY = Some ''key'',
            generateContent = (\<lambda>p. ReplyJSON (JObj
              [(''score'', JNum (Fin 9)), (''risk'', JStr ''Trustworthy''),
               (''summary'', JStr ''ok''), (''sources'', JArr [JStr ''Reuters''] []),
               (''claimsChecked'', JNum (Fin 3))]))\<rparr>
           (JObj [(''text'', JStr (replicate 50 CHR ''a''))]))) = 200
      \<and> get_prop (json (fst (post_analyze js
           \<lparr>GEMINI_API_KEY = Some ''key'',
            generateContent = (\<lambda>p. ReplyJSON (JObj
              [(''score'', JNum (Fin 9)), (''risk'', JStr ''Trustworthy''),
               (''summary'', JStr ''ok''), (''sources'', JArr [JStr ''Reuters''] []),
               (''claimsChecked'', JNum (Fin 3))]))\<rparr>
           (JObj [(''text'', JStr (replicate 50 CHR ''a''))])))) ''risk''
         = Inr (JStr ''Trustworthy'')
      \<and> status (fst (post_analyze_p000 js
           \<lparr>GEMINI_API_KEY = Some ''key'',
            generateContent = (\<lambda>p. ReplyJSON (JObj
              [(''score'', JNum (Fin 9)), (''risk'', JStr ''Trustworthy''),
               (''summary'', JStr ''ok''), (''sources'', JArr [JStr ''Reuters''] []),
               (''claimsChecked'', JNum (Fin 3))]))\<rparr>
           (JObj [(''text'', JStr (replicate 50 CHR ''a''))]))) = 200
      \<and> get_prop (json (fst (post_analyze_p000 js
           \<lparr>GEMINI_API_KEY = Some ''key'',
            generateContent = (\<lambda>p. ReplyJSON (JObj
              [(''score'', JNum (Fin 9)), (''risk'', JStr ''Trustworthy''),
               (''summary'', JStr ''ok''), (''sources'', JArr [JStr ''Reuters''] []),
               (''claimsChecked'', JNum (Fin 3))]))\<rparr>
           (JObj [(''text'', JStr (replicate 50 CHR ''a''))])))) ''risk''
         = Inr (JStr ''Trustworthy'')"
proof
  fix js
  let ?reply = "JObj
              [(''score'', JNum (Fin 9)), (''risk'', JStr ''Trustworthy''),
               (''summary'', JStr ''ok''), (''sources'', JArr [JStr ''Reuters''] []),
               (''claimsChecked'', JNum (Fin 3))]"
  let ?w = "\<lparr>GEMINI_API_KEY = Some ''key'', generateContent = (\<lambda>p. ReplyJSON ?reply)\<rparr>"
  let ?b = "JObj [(''text'', JStr (replicate 50 CHR ''a''))]"
  have k: "\<not> key_missing ?w"
    by (simp add: key_missing_def)
  have t: "get_prop ?b ''text'' = Inr (JStr (replicate 50 CHR ''a''))"
    by (simp add: own_def)
  have l: "50 \<le> length (replicate 50 CHR ''a'')"
    by simp
  have s1: "status (fst (post_analyze js ?w ?b)) = 200"
    by (simp add: post_analyze_valid [OF t l k] validate_obj written_def own_def js_or_def
        try_bind_simps log_line_def has_own_def res_json_def)
  have s2: "status (fst (post_analyze_p000 js ?w ?b)) = 200"
    by (simp add: post_analyze_p000_valid [OF t l k] validate_obj written_def own_def js_or_def
        try_bind_simps log_lines_p000_def js_greater_def has_own_def res_json_def)
  have r: "get_prop ?reply ''risk'' = Inr (JStr ''Trustworthy'')"
    by (simp add: own_def)
  from risk_passes_through [OF k t l, of ?reply js] s1 s2 r
  show "status (fst (post_analyze js ?w ?b)) = 200
      \<and> get_prop (json (fst (post_analyze js ?w ?b))) ''risk'' = Inr (JStr ''Trustworthy'')
      \<and> status (fst (post_analyze_p000 js ?w ?b)) = 200
      \<and> get_prop (json (fst (post_analyze_p000 js ?w ?b))) ''risk'' = Inr (JStr ''Trustworthy'')"
    by simp
qed

text \<open>
  The claim as written holds for every reply that parses. A reply that parses can
  still make the \<^verbatim>\<open>try\<close> block throw, and the answer is then the failure
  result with its risk Medium Risk, not the risk High Risk of the reply. In
  \<^verbatim>\<open>part_000\<close> this happens when sources is a non-empty string, which has a
  positive length and no method \<^verbatim>\<open>join\<close>; in \<^verbatim>\<open>server.js\<close> when the
  score is an object that cannot be converted to a number.
\<close>

theorem risk_replaced_counterexample:
  "\<forall>js. get_prop (JObj [(''score'', JNum (Fin 2)), (''risk'', JStr ''High Risk''),
                       (''summary'', JStr ''Debunked.''), (''sources'', JStr ''Snopes''),
                       (''claimsChecked'', JNum (Fin 1))]) ''risk''
         = Inr (JStr ''High Risk'')
      \<and> fst (post_analyze_p000 js
           \<lparr>GEMINI_API_KEY = Some ''key'',
            generateContent = (\<lambda>p. ReplyJSON (JObj
              [(''score'', JNum (Fin 2)), (''risk'', JStr ''High Risk''),
               (''summary'', JStr ''Debunked.''), (''sources'', JStr ''Snopes''),
               (''claimsChecked'', JNum (Fin 1))]))\<rparr>
           (JObj [(''text'', JStr (replicate 50 CHR ''a''))]))
         = res_status_json 500 failure_result_p000
      \<and> get_prop failure_result_p000 ''risk'' = Inr (JStr ''Medium Risk'')
      \<and> get_prop (JObj [(''score'', JObj [(''toString'', JNum (Fin 1))]),
                       (''risk'', JStr ''High Risk'')]) ''risk''
         = Inr (JStr ''High Risk'')
      \<and> fst (post_analyze js
           \<lparr>GEMINI_API_KEY = Some ''key'',
            generateContent = (\<lambda>p. ReplyJSON (JObj
              [(''score'', JObj [(''toString'', JNum (Fin 1))]),
               (''risk'', JStr ''High Risk'')]))\<rparr>
           (JObj [(''text'', JStr (replicate 50 CHR ''a''))]))
         = res_status_json 500 failure_result
      \<and> get_prop failure_result ''risk'' = Inr (JStr ''Medium Risk'')"
  by (simp add: eval_defs failure_result_def failure_result_p000_def)

section \<open>Health\<close>

text \<open>
  Claim C9. Whatever the surroundings are (the key set or not) and whatever the
  clock reads, \<^verbatim>\<open>GET /health\<close> answers 200 with status ok, the reading of the
  clock as timestamp and the identifier of the model, under \<^verbatim>\<open>model\<close> in
  \<^verbatim>\<open>server.js\<close> and under \<^verbatim>\<open>aiModel\<close> in \<^verbatim>\<open>part_000\<close>.
\<close>

theorem health_always_ok:
  "status (get_health w now) = 200
   \<and> get_prop (json (get_health w now)) ''status'' = Inr (JStr ''ok'')
   \<and> get_prop (json (get_health w now)) ''timestamp'' = Inr (JStr now)
   \<and> get_prop (json (get_health w now)) ''model'' = Inr (JStr ''gemini-2.0-flash-exp'')
   \<and> status (get_health_p000 w now) = 200
   \<and> get_prop (json (get_health_p000 w now)) ''status'' = Inr (JStr ''ok'')
   \<and> get_prop (json (get_health_p000 w now)) ''timestamp'' = Inr (JStr now)
   \<and> get_prop (json (get_health_p000 w now)) ''aiModel'' = Inr (JStr ''gemini-2.0-flash-exp'')"
  by (simp add: get_health_def get_health_p000_def res_json_def own_def)

section \<open>Clamping\<close>

text \<open>
  Claim C10. If the score of the reply is a Number below 0 (negative infinity
  included), the three assignments succeed and the score of the result is 0; if it
  is a Number above 10 (infinity included), they succeed and the score of the
  result is 10. Such a Number is truthy, so the default 5 is never taken for it.
\<close>

theorem out_of_range_clamped:
  assumes "get_prop analysis ''score'' = Inr (JNum n)"
  shows "(num_less n (Fin 0) \<longrightarrow>
            (\<exists>a. validate js analysis = Inr a \<and> get_prop a ''score'' = Inr (JNum (Fin 0))))
       \<and> (num_less (Fin 10) n \<longrightarrow>
            (\<exists>a. validate js analysis = Inr a \<and> get_prop a ''score'' = Inr (JNum (Fin 10))))"
proof (intro conjI impI)
  assume "num_less n (Fin 0)"
  with validate_number [OF assms, of js] less_truthy [of n] clamp_below [of n]
  show "\<exists>a. validate js analysis = Inr a \<and> get_prop a ''score'' = Inr (JNum (Fin 0))"
    by simp
next
  assume "num_less (Fin 10) n"
  with validate_number [OF assms, of js] less_truthy [of n] clamp_above [of n]
  show "\<exists>a. validate js analysis = Inr a \<and> get_prop a ''score'' = Inr (JNum (Fin 10))"
    by simp
qed

text \<open>The theorem at the scores -3, 11 and infinity.\<close>

theorem out_of_range_clamped_witness:
  "\<forall>js. (\<exists>a. validate js (JObj [(''score'', JNum (Fin (- 3))), (''risk'', JStr ''High Risk'')])
               = Inr a
            \<and> get_prop a ''score'' = Inr (JNum (Fin 0)))
      \<and> (\<exists>a. validate js (JObj [(''score'', JNum (Fin 11)), (''risk'', JStr ''Trustworthy'')])
               = Inr a
            \<and> get_prop a ''score'' = Inr (JNum (Fin 10)))
      \<and> (\<exists>a. validate js (JObj [(''score'', JNum PosInf)]) = Inr a
            \<and> get_prop a ''score'' = Inr (JNum (Fin 10)))"
proof
  fix js
  show "(\<exists>a. validate js (JObj [(''score'', JNum (Fin (- 3))), (''risk'', JStr ''High Risk'')])
               = Inr a
            \<and> get_prop a ''score'' = Inr (JNum (Fin 0)))
      \<and> (\<exists>a. validate js (JObj [(''score'', JNum (Fin 11)), (''risk'', JStr ''Trustworthy'')])
               = Inr a
            \<and> get_prop a ''score'' = Inr (JNum (Fin 10)))
      \<and> (\<exists>a. validate js (JObj [(''score'', JNum PosInf)]) = Inr a
            \<and> get_prop a ''score'' = Inr (JNum (Fin 10)))"
    using out_of_range_clamped [of "JObj [(''score'', JNum (Fin (- 3))), (''risk'', JStr ''High Risk'')]"
        "Fin (- 3)" js]
      out_of_range_clamped [of "JObj [(''score'', JNum (Fin 11)), (''risk'', JStr ''Trustworthy'')]"
        "Fin 11" js]
      out_of_range_clamped [of "JObj [(''score'', JNum PosInf)]" PosInf js]
    by (simp add: own_def)
qed

end
